theory Spec2Isabelle
  imports Main
begin

section \<open>Values exchanged with the Go runtime and standard library\<close>

text \<open>
  The deployment manager of \<^verbatim>\<open>server.go\<close> is embedded as HOL functions over an explicit
  world (file system, monotonic clock, trace of effects). What the Go standard library and
  the rest of the repository compute (JSON coding, path joining, the manifest parser, TCP
  dialling, process start, the HTTP server that is polled) is taken as a parameter, collected
  in the record \<open>env\<close>; the code of \<^verbatim>\<open>server.go\<close> itself is translated line by line.
\<close>

type_synonym bytes = string

text \<open>Go \<^verbatim>\<open>error\<close> values: those built in \<^verbatim>\<open>server.go\<close> with \<^verbatim>\<open>errors.New\<close>, the
  \<^verbatim>\<open>url.Error\<close> in which \<^verbatim>\<open>net/http\<close> wraps an error of \<^verbatim>\<open>CheckRedirect\<close>, errors
  reported by a library or the operating system, and a run-time panic.\<close>

datatype error =
    errors_New string
  | url_Error error
  | lib_error string
  | runtime_panic string

subsection \<open>\<^verbatim>\<open>fmt.Sprintf\<close> verbs used by the code\<close>

definition digit_char :: "nat \<Rightarrow> char" where
  "digit_char n = ''0123456789'' ! (n mod 10)"

fun nat_decimal :: "nat \<Rightarrow> string" where
  "nat_decimal n = (if n < 10 then [digit_char n] else nat_decimal (n div 10) @ [digit_char n])"

declare nat_decimal.simps [simp del]

definition fmt_d :: "int \<Rightarrow> string" where
  \<comment> \<open>the verb \<^verbatim>\<open>%d\<close>\<close>
  "fmt_d i = (if i < 0 then CHR ''-'' # nat_decimal (nat (- i)) else nat_decimal (nat i))"

definition fmt_02d :: "int \<Rightarrow> string" where
  \<comment> \<open>the verb \<^verbatim>\<open>%02d\<close>: zero padding up to width two, the sign counted in the width\<close>
  "fmt_02d i = (if 0 \<le> i \<and> i < 10 then CHR ''0'' # fmt_d i else fmt_d i)"

subsection \<open>Data of \<^verbatim>\<open>server.go\<close>\<close>

definition deployPath :: string where
  "deployPath = ''deploys''"

definition configPath :: string where
  "configPath = ''config.json''"

text \<open>\<^verbatim>\<open>Config\<close>: two Go maps. A Go map may be \<^verbatim>\<open>nil\<close> (\<open>None\<close>); reading a nil map is
  allowed, assigning into it panics.\<close>

record Config =
  Ports :: "(int \<rightharpoonup> string) option"
  Labels :: "(string \<rightharpoonup> string) option"

record ServerImpl =
  root :: string
  config :: Config

text \<open>\<^verbatim>\<open>Application\<close> and \<^verbatim>\<open>NewDeployDirResponse\<close> are declared in another file of the
  package; only the members that \<^verbatim>\<open>server.go\<close> uses appear here.\<close>

record Application =
  RunCmd :: "int \<Rightarrow> string"
  HealthEndpoint :: string

record NewDeployDirResponse =
  DeployId :: string
  Path :: string

text \<open>The calendar fields of a \<^verbatim>\<open>time.Time\<close> in the local zone, as read by
  \<^verbatim>\<open>t.Year()\<close>, ..., \<^verbatim>\<open>t.Second()\<close>.\<close>

record clock_reading =
  Year :: int
  Month :: int
  Day :: int
  Hour :: int
  Minute :: int
  Second :: int
  Nanosecond :: int

text \<open>\<^verbatim>\<open>exec.Cmd\<close>, with the fields the code sets.\<close>

record Cmd =
  Args :: "string list"
  Dir :: string
  Setpgid :: bool

subsection \<open>The world\<close>

datatype file_state = Missing | Denied | Data bytes

text \<open>Every effect of the code on its surroundings is appended to a trace, in program
  order.\<close>

datatype event =
    LogPrint string
  | Println string
  | NetDial string
  | FileWrite string bytes "error option"
  | ProcStart Cmd "error option"
  | HttpGet string
  | Sleep int

record world =
  files :: "string \<Rightarrow> file_state"
  clock :: int
  trace :: "event list"

definition emit :: "event \<Rightarrow> world \<Rightarrow> world" where
  "emit e w = w\<lparr>trace := trace w @ [e]\<rparr>"

text \<open>What a polled HTTP server does with one request, and how long it takes
  (nanoseconds): no answer, a response with a status code and no \<^verbatim>\<open>Location\<close> header, or
  a response with a status code and a \<^verbatim>\<open>Location\<close> header.\<close>

datatype http_outcome = ConnectionFailed | Responded int | RespondedLocation int string

record attempt =
  outcome :: http_outcome
  latency :: nat

text \<open>The parameters: library functions and the behaviour of the surroundings.
  \<open>net_Dial\<close> and \<open>cmd_Start\<close> return the error of the call (\<open>None\<close> for \<^verbatim>\<open>nil\<close>);
  \<open>http_server\<close> gives the server's behaviour for a request to a URL issued at an instant
  of the monotonic clock; \<open>ApplicationFromConfig\<close> parses the file found at a path.\<close>

record env =
  path_Join :: "string list \<Rightarrow> string"
  json_Marshal :: "Config \<Rightarrow> error + bytes"
  json_Unmarshal :: "bytes \<Rightarrow> error + Config"
  ApplicationFromConfig :: "string \<Rightarrow> file_state \<Rightarrow> error + Application"
  net_Dial :: "string \<Rightarrow> error option"
  cmd_Start :: "Cmd \<Rightarrow> error option"
  http_server :: "string \<Rightarrow> int \<Rightarrow> attempt"

subsection \<open>\<^verbatim>\<open>io/ioutil\<close> and \<^verbatim>\<open>time\<close>\<close>

text \<open>A file is missing, protected against reading and writing, or holds bytes. Reading
  fails on a missing and on a protected file. Writing fails on a protected file, which it
  leaves as it was, and otherwise creates or replaces the file. The clock is monotonic and
  counts nanoseconds; it advances while a request is under way and during a sleep, which
  lasts exactly the duration asked for.\<close>

definition ioutil_ReadFile :: "string \<Rightarrow> world \<Rightarrow> error + bytes" where
  "ioutil_ReadFile p w =
     (case files w p of
        Missing \<Rightarrow> Inl (lib_error ''no such file or directory'')
      | Denied \<Rightarrow> Inl (lib_error ''permission denied'')
      | Data d \<Rightarrow> Inr d)"

definition ioutil_WriteFile :: "string \<Rightarrow> bytes \<Rightarrow> world \<Rightarrow> error option \<times> world" where
  "ioutil_WriteFile p d w =
     (case files w p of
        Denied \<Rightarrow> (Some (lib_error ''permission denied''),
                   emit (FileWrite p d (Some (lib_error ''permission denied''))) w)
      | _ \<Rightarrow> (None, emit (FileWrite p d None) (w\<lparr>files := (files w)(p := Data d)\<rparr>)))"

definition Millisecond :: int where
  "Millisecond = 1000000"

definition Second_ns :: int where
  "Second_ns = 1000 * Millisecond"

definition time_Sleep :: "int \<Rightarrow> world \<Rightarrow> world" where
  "time_Sleep d w = emit (Sleep d) (w\<lparr>clock := clock w + d\<rparr>)"

section \<open>The functions of \<^verbatim>\<open>server.go\<close>\<close>

definition readConfig :: "env \<Rightarrow> string \<Rightarrow> world \<Rightarrow> error + Config" where
  "readConfig E p w =
     (let zero = \<lparr>Ports = None, Labels = None\<rparr>;
          decoded = (case ioutil_ReadFile p w of
                       Inr data \<Rightarrow> json_Unmarshal E data
                     | Inl err \<Rightarrow> Inr zero)
      in case decoded of
           Inl err \<Rightarrow> Inl err
         | Inr c \<Rightarrow>
             (let c1 = (if Ports c = None then c\<lparr>Ports := Some Map.empty\<rparr> else c);
                  c2 = (if Labels c1 = None then c1\<lparr>Labels := Some Map.empty\<rparr> else c1)
              in Inr c2))"

definition NewDeployDir :: "env \<Rightarrow> ServerImpl \<Rightarrow> clock_reading \<Rightarrow> NewDeployDirResponse" where
  \<comment> \<open>the third argument is the value of \<^verbatim>\<open>time.Now()\<close>\<close>
  "NewDeployDir E s t =
     (let timestamp = fmt_d (Year t) @ ''-'' @ fmt_02d (Month t) @ ''-'' @ fmt_02d (Day t) @ ''-''
                      @ fmt_02d (Hour t) @ ''-'' @ fmt_02d (Minute t) @ ''-'' @ fmt_02d (Second t)
      in \<lparr>DeployId = timestamp, Path = path_Join E [root s, deployPath, timestamp]\<rparr>)"

function findUnusedPort_loop :: "env \<Rightarrow> int \<Rightarrow> world \<Rightarrow> (error + int) \<times> world" where
  "findUnusedPort_loop E i w =
     (if i < 8100 then
        (let addr = ''127.0.0.1:'' @ fmt_d i;
             w1 = emit (NetDial addr) w
         in case net_Dial E addr of
              Some err \<Rightarrow> (Inr i, w1)
            | None \<Rightarrow> findUnusedPort_loop E (i + 1) w1)
      else (Inl (errors_New ''Could not find free port''), w))"
  by pat_completeness auto
termination
  by (relation "measure (\<lambda>(E, i, w). nat (8100 - i))") auto

declare findUnusedPort_loop.simps [simp del]

definition findUnusedPort :: "env \<Rightarrow> world \<Rightarrow> (error + int) \<times> world" where
  \<comment> \<open>\<open>Inl err\<close> stands for the pair \<^verbatim>\<open>(-1, err)\<close>; the receiver is not used\<close>
  "findUnusedPort E w = findUnusedPort_loop E 8001 w"

definition writeConfig :: "env \<Rightarrow> ServerImpl \<Rightarrow> world \<Rightarrow> error option \<times> world" where
  "writeConfig E s w =
     (case json_Marshal E (config s) of
        Inl err \<Rightarrow> (Some err, w)
      | Inr data \<Rightarrow> ioutil_WriteFile (path_Join E [root s, configPath]) data w)"

definition MAX_STARTUP_TIME :: int where
  "MAX_STARTUP_TIME = 1 * Second_ns"

definition MAX_HEALTH_CHECK_TIME :: int where
  "MAX_HEALTH_CHECK_TIME = 2 * Second_ns"

definition STARTUP_HEALTH_CHECK_INTERVAL :: int where
  "STARTUP_HEALTH_CHECK_INTERVAL = 100 * Millisecond"

text \<open>The \<^verbatim>\<open>CheckRedirect\<close> closure of the client: it rejects every redirect.\<close>

definition CheckRedirect :: "error option" where
  "CheckRedirect = Some (errors_New ''health check should not redirect'')"

text \<open>\<^verbatim>\<open>client.Get\<close> of \<^verbatim>\<open>net/http\<close> for this client. A request that is not finished
  within \<^verbatim>\<open>Timeout\<close> ends with an error. The client treats a response as a redirect when
  its status is 301, 302, 303, 307 or 308 and it carries a non-empty \<^verbatim>\<open>Location\<close>; any
  other response, a 3xx status without \<^verbatim>\<open>Location\<close> included, is returned with a nil
  error. Before following a redirect the client calls \<^verbatim>\<open>CheckRedirect\<close>; when that returns
  an error, \<^verbatim>\<open>Get\<close> returns this error wrapped in a \<^verbatim>\<open>url.Error\<close> (a non-nil \<^verbatim>\<open>err\<close>), and
  the redirect is not followed. With no error the client would issue the next request,
  which this client never does.\<close>

definition is_redirect_status :: "int \<Rightarrow> bool" where
  "is_redirect_status code =
     (code = 301 \<or> code = 302 \<or> code = 303 \<or> code = 307 \<or> code = 308)"

definition client_Get :: "env \<Rightarrow> string \<Rightarrow> world \<Rightarrow> (error + int) \<times> world" where
  "client_Get E url w =
     (let a = http_server E url (clock w);
          w1 = emit (HttpGet url) w
      in if MAX_HEALTH_CHECK_TIME < int (latency a)
         then (Inl (url_Error (lib_error ''Client.Timeout exceeded'')),
               w1\<lparr>clock := clock w + MAX_HEALTH_CHECK_TIME\<rparr>)
         else (case outcome a of
                 ConnectionFailed \<Rightarrow> Inl (url_Error (lib_error ''connection refused''))
               | Responded code \<Rightarrow> Inr code
               | RespondedLocation code loc \<Rightarrow>
                   (if is_redirect_status code \<and> loc \<noteq> []
                    then (case CheckRedirect of
                            Some err \<Rightarrow> Inl (url_Error err)
                          | None \<Rightarrow> Inr code)
                    else Inr code),
               w1\<lparr>clock := clock w + int (latency a)\<rparr>))"

function waitForAppToStart_loop :: "env \<Rightarrow> string \<Rightarrow> int \<Rightarrow> world \<Rightarrow> error option \<times> world" where
  "waitForAppToStart_loop E url end' w =
     (let got = client_Get E url (emit (LogPrint ''.'') w);
          w2 = snd got
      in case fst got of
           Inr StatusCode \<Rightarrow>
             (if StatusCode = 200 then (None, emit (LogPrint ''ok'') w2)
              else (Some (errors_New (''Health check failed '' @ fmt_d StatusCode)),
                    emit (LogPrint (''bad: '' @ fmt_d StatusCode)) w2))
         | Inl err \<Rightarrow>
             (if end' < clock w2
              then (Some (errors_New ''Failed to connect to app after timeout''), w2)
              else waitForAppToStart_loop E url end' (time_Sleep STARTUP_HEALTH_CHECK_INTERVAL w2)))"
  by pat_completeness auto
termination
proof (relation "measure (\<lambda>(E, url, end', w). nat (end' + 1 - clock w))")
  show "wf (measure (\<lambda>(E, url, end', w). nat (end' + 1 - clock w)))" by simp
next
  fix E :: env and url :: string and end' :: int and w :: world
    and got w2 err
  assume got: "got = client_Get E url (emit (LogPrint ''.'') w)"
    and w2: "w2 = snd got" and notafter: "\<not> end' < clock w2"
  have "clock w \<le> clock w2"
    unfolding w2 got
    by (simp add: client_Get_def emit_def Let_def MAX_HEALTH_CHECK_TIME_def Second_ns_def
        Millisecond_def)
  with notafter show "((E, url, end', time_Sleep STARTUP_HEALTH_CHECK_INTERVAL w2), E, url, end', w)
      \<in> measure (\<lambda>(E, url, end', w). nat (end' + 1 - clock w))"
    by (simp add: time_Sleep_def emit_def STARTUP_HEALTH_CHECK_INTERVAL_def Millisecond_def)
qed

declare waitForAppToStart_loop.simps [simp del]

definition waitForAppToStart :: "env \<Rightarrow> int \<Rightarrow> Application \<Rightarrow> world \<Rightarrow> error option \<times> world" where
  "waitForAppToStart E port app w =
     (let end' = clock w + MAX_STARTUP_TIME
      in waitForAppToStart_loop E (''http://localhost:'' @ fmt_d port @ HealthEndpoint app) end' w)"

text \<open>The statement \<^verbatim>\<open>s.config.Ports[port] = deployId\<close>: an assignment into a Go map, which
  panics when the map is \<^verbatim>\<open>nil\<close>.\<close>

definition assignPort :: "int \<Rightarrow> string \<Rightarrow> ServerImpl \<Rightarrow> error + ServerImpl" where
  "assignPort port deployId s =
     (case Ports (config s) of
        None \<Rightarrow> Inl (runtime_panic ''assignment to entry in nil map'')
      | Some m \<Rightarrow> Inr (s\<lparr>config := (config s)\<lparr>Ports := Some (m(port \<mapsto> deployId))\<rparr>\<rparr>))"

definition Run :: "env \<Rightarrow> ServerImpl \<Rightarrow> string \<Rightarrow> world \<Rightarrow> error option \<times> ServerImpl \<times> world" where
  "Run E s deployId w =
     (case findUnusedPort E w of
        (Inl err, w1) \<Rightarrow> (Some err, s, w1)
      | (Inr port, w1) \<Rightarrow>
          (let w2 = emit (LogPrint (''Found port  '' @ fmt_d port)) w1;
               deployDir = path_Join E [root s, deployPath, deployId];
               manifest = path_Join E [deployDir, ''deploy.json'']
           in case ApplicationFromConfig E manifest (files w2 manifest) of
                Inl err \<Rightarrow> (Some err, s, w2)
              | Inr app \<Rightarrow>
                  (case assignPort port deployId s of
                     Inl err \<Rightarrow> (Some err, s, w2)
                   | Inr s1 \<Rightarrow>
                       (let w3 = snd (writeConfig E s1 w2);
                            w4 = emit (Println deployDir) w3;
                            w5 = emit (Println (RunCmd app port)) w4;
                            cmd = \<lparr>Args = [''sh'', ''-c'', RunCmd app port], Dir = deployDir,
                                   Setpgid = True\<rparr>;
                            started = cmd_Start E cmd;
                            w6 = emit (ProcStart cmd started) w5
                        in case started of
                             Some err \<Rightarrow> (Some err, s1, w6)
                           | None \<Rightarrow>
                               (case waitForAppToStart E port app w6 of
                                  (res, w7) \<Rightarrow> (res, s1, w7))))))"

section \<open>Vocabulary of the specification\<close>

text \<open>The specification names the outcomes of the code; each name is bound here to the
  Go value that \<^verbatim>\<open>server.go\<close> produces for it.\<close>

definition dial_addr :: "int \<Rightarrow> string" where
  \<comment> \<open>the address probed for a candidate port\<close>
  "dial_addr i = ''127.0.0.1:'' @ fmt_d i"

definition NoFreePortAvailable :: error where
  "NoFreePortAvailable = errors_New ''Could not find free port''"

definition BadStatus :: "int \<Rightarrow> error" where
  "BadStatus code = errors_New (''Health check failed '' @ fmt_d code)"

definition StartupTimeout :: error where
  "StartupTimeout = errors_New ''Failed to connect to app after timeout''"

definition is_digit :: "char \<Rightarrow> bool" where
  "is_digit c = (c \<in> set ''0123456789'')"

text \<open>A string matches a pattern such as \<^verbatim>\<open>YYYY-MM-DD-HH-MM-SS\<close> when it has a hyphen
  where the pattern has one and a decimal digit at every other position.\<close>

fun matches_pattern :: "string \<Rightarrow> string \<Rightarrow> bool" where
  "matches_pattern [] [] = True"
| "matches_pattern (p # ps) (c # cs) =
     ((if p = CHR ''-'' then c = CHR ''-'' else is_digit c) \<and> matches_pattern ps cs)"
| "matches_pattern _ _ = False"

text \<open>The poll of the health checker, seen from the loop: the request issued after the
  dot has been logged.\<close>

definition poll :: "env \<Rightarrow> string \<Rightarrow> world \<Rightarrow> (error + int) \<times> world" where
  "poll E url w = client_Get E url (emit (LogPrint ''.'') w)"

definition deploy_dir :: "env \<Rightarrow> ServerImpl \<Rightarrow> string \<Rightarrow> string" where
  \<comment> \<open>the directory of a deploy\<close>
  "deploy_dir E s deployId = path_Join E [root s, deployPath, deployId]"

definition manifest_path :: "env \<Rightarrow> ServerImpl \<Rightarrow> string \<Rightarrow> string" where
  "manifest_path E s deployId = path_Join E [deploy_dir E s deployId, ''deploy.json'']"

definition config_file :: "env \<Rightarrow> ServerImpl \<Rightarrow> string" where
  \<comment> \<open>the file of the persisted registry\<close>
  "config_file E s = path_Join E [root s, configPath]"

definition launch_cmd :: "env \<Rightarrow> ServerImpl \<Rightarrow> string \<Rightarrow> Application \<Rightarrow> int \<Rightarrow> Cmd" where
  \<comment> \<open>the command that \<^verbatim>\<open>Run\<close> starts\<close>
  "launch_cmd E s deployId app port =
     \<lparr>Args = [''sh'', ''-c'', RunCmd app port], Dir = deploy_dir E s deployId, Setpgid = True\<rparr>"

text \<open>The events a health check adds to the trace, and the lines written through the
  \<^verbatim>\<open>log\<close> package.\<close>

fun is_health_event :: "event \<Rightarrow> bool" where
  "is_health_event (LogPrint l) = True"
| "is_health_event (HttpGet u) = True"
| "is_health_event (Sleep d) = True"
| "is_health_event _ = False"

fun is_FileWrite :: "event \<Rightarrow> bool" where
  "is_FileWrite (FileWrite p d r) = True"
| "is_FileWrite _ = False"

fun log_lines :: "event list \<Rightarrow> string list" where
  "log_lines [] = []"
| "log_lines (LogPrint l # es) = l # log_lines es"
| "log_lines (e # es) = log_lines es"

text \<open>A clock reading within the ranges of the calendar, and two readings taken within
  the same second.\<close>

definition valid_clock_reading :: "clock_reading \<Rightarrow> bool" where
  "valid_clock_reading t =
     (1 \<le> Month t \<and> Month t \<le> 12 \<and> 1 \<le> Day t \<and> Day t \<le> 31 \<and> 0 \<le> Hour t \<and> Hour t \<le> 23 \<and>
      0 \<le> Minute t \<and> Minute t \<le> 59 \<and> 0 \<le> Second t \<and> Second t \<le> 59 \<and>
      0 \<le> Nanosecond t \<and> Nanosecond t < 1000000000)"

definition same_second :: "clock_reading \<Rightarrow> clock_reading \<Rightarrow> bool" where
  "same_second t t' =
     (Year t = Year t' \<and> Month t = Month t' \<and> Day t = Day t' \<and> Hour t = Hour t' \<and>
      Minute t = Minute t' \<and> Second t = Second t')"

text \<open>Reading a deploy id back: the number that a string of decimal digits spells, and
  the six numbers found in an id at the positions of \<^verbatim>\<open>YYYY\<close>, \<^verbatim>\<open>MM\<close>, \<^verbatim>\<open>DD\<close>, \<^verbatim>\<open>HH\<close>,
  \<^verbatim>\<open>MM\<close> and \<^verbatim>\<open>SS\<close>.\<close>

definition digit_val :: "char \<Rightarrow> nat" where
  "digit_val c = of_char c - 48"

definition read_decimal :: "string \<Rightarrow> nat" where
  "read_decimal s = foldl (\<lambda>a c. 10 * a + digit_val c) 0 s"

definition id_fields :: "string \<Rightarrow> int \<times> int \<times> int \<times> int \<times> int \<times> int" where
  "id_fields s =
     (int (read_decimal (take 4 s)),
      int (read_decimal (take 2 (drop 5 s))),
      int (read_decimal (take 2 (drop 8 s))),
      int (read_decimal (take 2 (drop 11 s))),
      int (read_decimal (take 2 (drop 14 s))),
      int (read_decimal (take 2 (drop 17 s))))"

definition health_url :: "int \<Rightarrow> Application \<Rightarrow> string" where
  \<comment> \<open>the URL polled for an application started on a port\<close>
  "health_url port app = ''http://localhost:'' @ fmt_d port @ HealthEndpoint app"

section \<open>A concrete deployment\<close>

text \<open>The end-to-end scenario of the specification: the manifest declares the health path
  \<^verbatim>\<open>/healthz\<close> and the command \<^verbatim>\<open>myapp --port=PORT\<close>, every candidate port below 8050
  has a listener, 8050 is free, and the application answers 200 from 300 ms on. The
  library functions are replaced by test doubles.\<close>

definition join_slash :: "string list \<Rightarrow> string" where
  "join_slash xs =
     (case filter (\<lambda>x. x \<noteq> []) xs of [] \<Rightarrow> [] | y # ys \<Rightarrow> foldl (\<lambda>a b. a @ ''/'' @ b) y ys)"

definition demo_app :: Application where
  "demo_app = \<lparr>RunCmd = (\<lambda>port. ''myapp --port='' @ fmt_d port), HealthEndpoint = ''/healthz''\<rparr>"

definition demo_config :: Config where
  "demo_config = \<lparr>Ports = Some [8050 \<mapsto> ''d1''], Labels = Some Map.empty\<rparr>"

definition demo_json :: bytes where
  \<open>demo_json = ''{"Ports":{"8050":"d1"},"Labels":{}}''\<close>

definition demo_env :: env where
  "demo_env =
     \<lparr>path_Join = join_slash,
      json_Marshal = (\<lambda>c. if c = demo_config then Inr demo_json
                           else Inl (lib_error ''unsupported value'')),
      json_Unmarshal = (\<lambda>b. if b = demo_json then Inr demo_config
                             else Inl (lib_error ''invalid character'')),
      ApplicationFromConfig = (\<lambda>p f. case f of Data d \<Rightarrow> Inr demo_app
                                     | _ \<Rightarrow> Inl (lib_error ''open deploy.json'')),
      net_Dial = (\<lambda>a. if a \<in> set (map dial_addr [8001..8049]) then None
                       else Some (lib_error ''connection refused'')),
      cmd_Start = (\<lambda>c. None),
      http_server = (\<lambda>url t. if 300 * Millisecond \<le> t
                               then \<lparr>outcome = Responded 200, latency = 1000000\<rparr>
                               else \<lparr>outcome = ConnectionFailed, latency = 1000000\<rparr>)\<rparr>"

definition demo_server :: ServerImpl where
  "demo_server = \<lparr>root = ''/srv/camus'',
                  config = \<lparr>Ports = Some Map.empty, Labels = Some Map.empty\<rparr>\<rparr>"

definition demo_world :: world where
  "demo_world =
     \<lparr>files = (\<lambda>p. if p = ''/srv/camus/deploys/d1/deploy.json'' then Data ''manifest''
                    else Missing),
      clock = 0, trace = []\<rparr>"

text \<open>Variants of the scenario: an application that answers every poll with status 500;
  one that refuses the connection until 300 ms and answers with status 500 from then on;
  one that first answers with a redirect to \<^verbatim>\<open>/login\<close> and from 50 ms on with status 200;
  one that answers every poll with that redirect.\<close>

definition failing_env :: env where
  "failing_env = demo_env\<lparr>http_server :=
     (\<lambda>url t. \<lparr>outcome = Responded 500, latency = 1000000\<rparr>)\<rparr>"

definition late_failing_env :: env where
  "late_failing_env = demo_env\<lparr>http_server :=
     (\<lambda>url t. if 300 * Millisecond \<le> t then \<lparr>outcome = Responded 500, latency = 1000000\<rparr>
               else \<lparr>outcome = ConnectionFailed, latency = 1000000\<rparr>)\<rparr>"

definition redirect_env :: env where
  "redirect_env = demo_env\<lparr>http_server :=
     (\<lambda>url t. if t < 50 * Millisecond
               then \<lparr>outcome = RespondedLocation 302 ''/login'', latency = 1000000\<rparr>
               else \<lparr>outcome = Responded 200, latency = 1000000\<rparr>)\<rparr>"

definition looping_env :: env where
  "looping_env = demo_env\<lparr>http_server :=
     (\<lambda>url t. \<lparr>outcome = RespondedLocation 302 ''/login'', latency = 1000000\<rparr>)\<rparr>"

text \<open>Further variants: the registry file cannot be written; the application never
  answers; the process cannot be started; the manifest is missing.\<close>

definition denied_world :: world where
  "denied_world = demo_world\<lparr>files := (files demo_world)(''/srv/camus/config.json'' := Denied)\<rparr>"

definition dead_env :: env where
  "dead_env = demo_env\<lparr>http_server :=
     (\<lambda>url t. \<lparr>outcome = ConnectionFailed, latency = 1000000\<rparr>)\<rparr>"

definition nospawn_env :: env where
  "nospawn_env = demo_env\<lparr>cmd_Start := (\<lambda>c. Some (lib_error ''fork/exec: resource unavailable''))\<rparr>"

definition full_env :: env where
  "full_env = demo_env\<lparr>net_Dial := (\<lambda>a. None)\<rparr>"

definition demo_time :: clock_reading where
  "demo_time = \<lparr>Year = 2014, Month = 3, Day = 9, Hour = 7, Minute = 5, Second = 0,
                Nanosecond = 123456789\<rparr>"

section \<open>Port allocation\<close>

lemma nat_decimal_numeral [simp]:
  "nat_decimal (numeral k) =
     (if (numeral k :: nat) < 10 then [digit_char (numeral k)]
      else nat_decimal (numeral k div 10) @ [digit_char (numeral k)])"
  by (rule nat_decimal.simps)

lemma findUnusedPort_loop_stop:
  "\<not> i < 8100 \<Longrightarrow> findUnusedPort_loop E i w = (Inl NoFreePortAvailable, w)"
  by (subst findUnusedPort_loop.simps) (simp add: NoFreePortAvailable_def)

lemma findUnusedPort_loop_free:
  "i < 8100 \<Longrightarrow> net_Dial E (dial_addr i) = Some err \<Longrightarrow>
   findUnusedPort_loop E i w = (Inr i, emit (NetDial (dial_addr i)) w)"
  by (subst findUnusedPort_loop.simps) (simp add: dial_addr_def Let_def)

lemma findUnusedPort_loop_next:
  "i < 8100 \<Longrightarrow> net_Dial E (dial_addr i) = None \<Longrightarrow>
   findUnusedPort_loop E i w = findUnusedPort_loop E (i + 1) (emit (NetDial (dial_addr i)) w)"
  by (subst findUnusedPort_loop.simps) (simp add: dial_addr_def Let_def)

lemma findUnusedPort_loop_Inr:
  "fst (findUnusedPort_loop E i w) = Inr p \<longleftrightarrow>
     i \<le> p \<and> p < 8100 \<and> net_Dial E (dial_addr p) \<noteq> None \<and>
     (\<forall>q. i \<le> q \<and> q < p \<longrightarrow> net_Dial E (dial_addr q) = None)"
proof (induction E i w rule: findUnusedPort_loop.induct)
  case (1 E i w)
  show ?case
  proof (cases "i < 8100")
    case False
    then show ?thesis
      by (auto simp: findUnusedPort_loop_stop)
  next
    case True
    note lt = this
    show ?thesis
    proof (cases "net_Dial E (dial_addr i)")
      case (Some err)
      have "(i \<le> p \<and> p < 8100 \<and> net_Dial E (dial_addr p) \<noteq> None \<and>
         (\<forall>q. i \<le> q \<and> q < p \<longrightarrow> net_Dial E (dial_addr q) = None)) \<longleftrightarrow> p = i"
        using lt Some by (auto simp: not_less)
      then show ?thesis
        using findUnusedPort_loop_free[OF lt Some] by auto
    next
      case None
      have IH: "fst (findUnusedPort_loop E (i + 1) (emit (NetDial (dial_addr i)) w)) = Inr p \<longleftrightarrow>
         i + 1 \<le> p \<and> p < 8100 \<and> net_Dial E (dial_addr p) \<noteq> None \<and>
         (\<forall>q. i + 1 \<le> q \<and> q < p \<longrightarrow> net_Dial E (dial_addr q) = None)"
        using "1.IH"[OF lt refl refl] None by (simp add: dial_addr_def)
      have "(i + 1 \<le> p \<and> p < 8100 \<and> net_Dial E (dial_addr p) \<noteq> None \<and>
         (\<forall>q. i + 1 \<le> q \<and> q < p \<longrightarrow> net_Dial E (dial_addr q) = None)) \<longleftrightarrow>
         (i \<le> p \<and> p < 8100 \<and> net_Dial E (dial_addr p) \<noteq> None \<and>
         (\<forall>q. i \<le> q \<and> q < p \<longrightarrow> net_Dial E (dial_addr q) = None))"
      proof -
        have "i \<le> q \<longleftrightarrow> q = i \<or> i + 1 \<le> q" for q by auto
        moreover have "i \<le> p \<and> net_Dial E (dial_addr p) \<noteq> None \<longleftrightarrow>
            i + 1 \<le> p \<and> net_Dial E (dial_addr p) \<noteq> None"
          using None by (cases "p = i") auto
        ultimately show ?thesis using None by auto
      qed
      then show ?thesis
        using findUnusedPort_loop_next[OF lt None] IH by simp
    qed
  qed
qed

lemma findUnusedPort_loop_Inl:
  "fst (findUnusedPort_loop E i w) = Inl e \<longleftrightarrow>
     e = NoFreePortAvailable \<and> (\<forall>q. i \<le> q \<and> q < 8100 \<longrightarrow> net_Dial E (dial_addr q) = None)"
proof (induction E i w rule: findUnusedPort_loop.induct)
  case (1 E i w)
  show ?case
  proof (cases "i < 8100")
    case False
    then show ?thesis
      by (auto simp: findUnusedPort_loop_stop)
  next
    case True
    note lt = this
    show ?thesis
    proof (cases "net_Dial E (dial_addr i)")
      case (Some err)
      then show ?thesis
        using lt findUnusedPort_loop_free[OF lt Some] by auto
    next
      case None
      have IH: "fst (findUnusedPort_loop E (i + 1) (emit (NetDial (dial_addr i)) w)) = Inl e \<longleftrightarrow>
         e = NoFreePortAvailable \<and>
         (\<forall>q. i + 1 \<le> q \<and> q < 8100 \<longrightarrow> net_Dial E (dial_addr q) = None)"
        using "1.IH"[OF lt refl refl] None by (simp add: dial_addr_def)
      have "i \<le> q \<longleftrightarrow> q = i \<or> i + 1 \<le> q" for q by auto
      then have "(\<forall>q. i + 1 \<le> q \<and> q < 8100 \<longrightarrow> net_Dial E (dial_addr q) = None) \<longleftrightarrow>
         (\<forall>q. i \<le> q \<and> q < 8100 \<longrightarrow> net_Dial E (dial_addr q) = None)"
        using None by auto
      then show ?thesis
        using findUnusedPort_loop_next[OF lt None] IH by simp
    qed
  qed
qed

text \<open>The probes are made in ascending order, and the loop changes nothing but the
  trace.\<close>

lemma findUnusedPort_loop_world:
  "snd (findUnusedPort_loop E i w) =
     w\<lparr>trace := trace w @ map (\<lambda>q. NetDial (dial_addr q))
       [i .. (case fst (findUnusedPort_loop E i w) of Inr p \<Rightarrow> p | Inl err \<Rightarrow> 8099)]\<rparr>"
proof (induction E i w rule: findUnusedPort_loop.induct)
  case (1 E i w)
  show ?case
  proof (cases "i < 8100")
    case False
    then show ?thesis
      by (simp add: findUnusedPort_loop_stop)
  next
    case True
    note lt = this
    show ?thesis
    proof (cases "net_Dial E (dial_addr i)")
      case (Some err)
      show ?thesis
        by (simp add: findUnusedPort_loop_free[OF lt Some] emit_def)
    next
      case None
      let ?r = "findUnusedPort_loop E (i + 1) (emit (NetDial (dial_addr i)) w)"
      let ?hi = "case fst ?r of Inr p \<Rightarrow> p | Inl err \<Rightarrow> 8099"
      have IH: "snd ?r = (emit (NetDial (dial_addr i)) w)
          \<lparr>trace := trace (emit (NetDial (dial_addr i)) w)
             @ map (\<lambda>q. NetDial (dial_addr q)) [i + 1 .. ?hi]\<rparr>"
        using "1.IH"[OF lt refl refl] None by (simp add: dial_addr_def)
      have "i \<le> ?hi"
      proof (cases "fst ?r")
        case (Inl e)
        then show ?thesis using lt by simp
      next
        case (Inr p)
        then show ?thesis using findUnusedPort_loop_Inr[of E "i + 1" _ p] by simp
      qed
      then have "[i .. ?hi] = i # [i + 1 .. ?hi]"
        by (simp add: upto_rec1)
      then show ?thesis
        using IH by (simp add: findUnusedPort_loop_next[OF lt None] emit_def)
    qed
  qed
qed

lemma findUnusedPort_world:
  "snd (findUnusedPort E w) =
     w\<lparr>trace := trace w @ map (\<lambda>q. NetDial (dial_addr q))
       [8001 .. (case fst (findUnusedPort E w) of Inr p \<Rightarrow> p | Inl err \<Rightarrow> 8099)]\<rparr>"
  unfolding findUnusedPort_def by (rule findUnusedPort_loop_world)

text \<open>
  Claim C5. \<^verbatim>\<open>findUnusedPort\<close> probes the candidates 8001, 8002, ... in this order, up to
  but excluding 8100, by dialling \<^verbatim>\<open>127.0.0.1:<candidate>\<close>. It returns a port \<open>p\<close> exactly
  when \<open>p\<close> lies in the range, the dial to \<open>p\<close> fails and the dial to every earlier
  candidate succeeds: the first candidate whose connection attempt fails, never a port
  outside the range. It fails exactly when the dial succeeds for every candidate of the
  range, and then with the error "Could not find free port". The trace holds the probes
  made, from 8001 up to the port returned (up to 8099 on failure).
\<close>

theorem findUnusedPort_first_free:
  "(fst (findUnusedPort E w) = Inr p \<longleftrightarrow>
      8001 \<le> p \<and> p < 8100 \<and> net_Dial E (dial_addr p) \<noteq> None \<and>
      (\<forall>q. 8001 \<le> q \<and> q < p \<longrightarrow> net_Dial E (dial_addr q) = None)) \<and>
   (fst (findUnusedPort E w) = Inl e \<longleftrightarrow>
      e = NoFreePortAvailable \<and>
      (\<forall>q. 8001 \<le> q \<and> q < 8100 \<longrightarrow> net_Dial E (dial_addr q) = None)) \<and>
   trace (snd (findUnusedPort E w)) =
     trace w @ map (\<lambda>q. NetDial (dial_addr q))
       [8001 .. (case fst (findUnusedPort E w) of Inr p \<Rightarrow> p | Inl err \<Rightarrow> 8099)]"
proof (intro conjI)
  show "fst (findUnusedPort E w) = Inr p \<longleftrightarrow>
      8001 \<le> p \<and> p < 8100 \<and> net_Dial E (dial_addr p) \<noteq> None \<and>
      (\<forall>q. 8001 \<le> q \<and> q < p \<longrightarrow> net_Dial E (dial_addr q) = None)"
    unfolding findUnusedPort_def by (rule findUnusedPort_loop_Inr)
  show "fst (findUnusedPort E w) = Inl e \<longleftrightarrow>
      e = NoFreePortAvailable \<and>
      (\<forall>q. 8001 \<le> q \<and> q < 8100 \<longrightarrow> net_Dial E (dial_addr q) = None)"
    unfolding findUnusedPort_def by (rule findUnusedPort_loop_Inl)
  show "trace (snd (findUnusedPort E w)) =
     trace w @ map (\<lambda>q. NetDial (dial_addr q))
       [8001 .. (case fst (findUnusedPort E w) of Inr p \<Rightarrow> p | Inl err \<Rightarrow> 8099)]"
    by (subst findUnusedPort_world) simp
qed

lemma demo_occupied:
  assumes "8001 \<le> q" and "q < 8050"
  shows "net_Dial demo_env (dial_addr q) = None"
proof -
  have "q \<in> {8001..8049}" using assms by simp
  then have "dial_addr q \<in> dial_addr ` {8001..8049}" by (rule imageI)
  then have "dial_addr q \<in> set (map dial_addr [8001..8049])"
    by (simp only: set_map set_upto)
  then show ?thesis
    by (simp only: demo_env_def env.simps if_True)
qed

lemma demo_free: "net_Dial demo_env (dial_addr 8050) = Some (lib_error ''connection refused'')"
  by (simp add: demo_env_def dial_addr_def fmt_d_def digit_char_def)

theorem findUnusedPort_first_free_witness:
  "fst (findUnusedPort demo_env demo_world) = Inr 8050 \<and>
   fst (findUnusedPort full_env demo_world) = Inl NoFreePortAvailable"
proof
  have "(8001::int) \<le> 8050 \<and> (8050::int) < 8100 \<and> net_Dial demo_env (dial_addr 8050) \<noteq> None \<and>
      (\<forall>q. 8001 \<le> q \<and> q < 8050 \<longrightarrow> net_Dial demo_env (dial_addr q) = None)"
    using demo_occupied demo_free by simp
  then show "fst (findUnusedPort demo_env demo_world) = Inr 8050"
    using findUnusedPort_first_free[of demo_env demo_world 8050] by blast
next
  have "\<forall>q. 8001 \<le> q \<and> q < 8100 \<longrightarrow> net_Dial full_env (dial_addr q) = None"
    by (simp add: full_env_def)
  then show "fst (findUnusedPort full_env demo_world)
      = Inl NoFreePortAvailable"
    using findUnusedPort_first_free[of full_env demo_world _
        NoFreePortAvailable]
    by blast
qed

section \<open>Health check\<close>

lemma poll_trace:
  "trace (snd (poll E url w)) = trace w @ [LogPrint ''.'', HttpGet url] \<and>
   files (snd (poll E url w)) = files w"
  by (simp add: poll_def client_Get_def emit_def Let_def)

text \<open>A poll completes with a status exactly when the server responds within the
  client's timeout and the client does not take the response for a redirect.\<close>

lemma poll_Inr:
  "fst (poll E url w) = Inr code \<longleftrightarrow>
     int (latency (http_server E url (clock w))) \<le> MAX_HEALTH_CHECK_TIME \<and>
     (outcome (http_server E url (clock w)) = Responded code \<or>
      (\<exists>loc. outcome (http_server E url (clock w)) = RespondedLocation code loc \<and>
             \<not> (is_redirect_status code \<and> loc \<noteq> [])))"
  by (auto simp: poll_def client_Get_def emit_def Let_def CheckRedirect_def
      split: http_outcome.splits)

text \<open>A poll ends with the error of \<^verbatim>\<open>CheckRedirect\<close> when the response, received within
  the timeout, is a redirect.\<close>

lemma poll_redirect:
  assumes "outcome (http_server E url (clock w)) = RespondedLocation code loc"
      and "is_redirect_status code" and "loc \<noteq> []"
      and "int (latency (http_server E url (clock w))) \<le> MAX_HEALTH_CHECK_TIME"
  shows "fst (poll E url w) = Inl (url_Error (errors_New ''health check should not redirect''))"
  using assms by (simp add: poll_def client_Get_def emit_def Let_def CheckRedirect_def)

lemma waitForAppToStart_loop_ok:
  "fst (poll E url w) = Inr 200 \<Longrightarrow>
   waitForAppToStart_loop E url end' w = (None, emit (LogPrint ''ok'') (snd (poll E url w)))"
  by (subst waitForAppToStart_loop.simps) (simp add: poll_def Let_def)

lemma waitForAppToStart_loop_bad:
  "fst (poll E url w) = Inr code \<Longrightarrow> code \<noteq> 200 \<Longrightarrow>
   waitForAppToStart_loop E url end' w =
     (Some (BadStatus code), emit (LogPrint (''bad: '' @ fmt_d code)) (snd (poll E url w)))"
  by (subst waitForAppToStart_loop.simps) (simp add: poll_def Let_def BadStatus_def)

lemma waitForAppToStart_loop_timeout:
  "fst (poll E url w) = Inl err \<Longrightarrow> end' < clock (snd (poll E url w)) \<Longrightarrow>
   waitForAppToStart_loop E url end' w = (Some StartupTimeout, snd (poll E url w))"
  by (subst waitForAppToStart_loop.simps) (simp add: poll_def Let_def StartupTimeout_def)

lemma waitForAppToStart_loop_retry:
  "fst (poll E url w) = Inl err \<Longrightarrow> clock (snd (poll E url w)) \<le> end' \<Longrightarrow>
   waitForAppToStart_loop E url end' w =
     waitForAppToStart_loop E url end'
       (time_Sleep STARTUP_HEALTH_CHECK_INTERVAL (snd (poll E url w)))"
  by (subst waitForAppToStart_loop.simps) (simp add: poll_def Let_def)

lemma waitForAppToStart_loop_retry_ex:
  "\<exists>err. fst (poll E url w) = Inl err \<Longrightarrow> clock (snd (poll E url w)) \<le> end' \<Longrightarrow>
   waitForAppToStart_loop E url end' w =
     waitForAppToStart_loop E url end'
       (time_Sleep STARTUP_HEALTH_CHECK_INTERVAL (snd (poll E url w)))"
  by (auto intro: waitForAppToStart_loop_retry)

lemma waitForAppToStart_loop_timeout_ex:
  "\<exists>err. fst (poll E url w) = Inl err \<Longrightarrow> end' < clock (snd (poll E url w)) \<Longrightarrow>
   waitForAppToStart_loop E url end' w = (Some StartupTimeout, snd (poll E url w))"
  by (auto intro: waitForAppToStart_loop_timeout)

text \<open>Every health check ends in one of three ways: success, a bad status, or the
  timeout error; the last one only with the clock after the deadline.\<close>

lemma waitForAppToStart_loop_outcomes:
  "fst (waitForAppToStart_loop E url e w) = None \<or>
   (\<exists>code. code \<noteq> 200 \<and> fst (waitForAppToStart_loop E url e w) = Some (BadStatus code)) \<or>
   (fst (waitForAppToStart_loop E url e w) = Some StartupTimeout \<and>
    e < clock (snd (waitForAppToStart_loop E url e w)))"
proof (induction E url e w rule: waitForAppToStart_loop.induct)
  case (1 E url e w)
  show ?case
  proof (cases "fst (poll E url w)")
    case (Inr code)
    then show ?thesis
      by (cases "code = 200")
        (auto simp: waitForAppToStart_loop_ok waitForAppToStart_loop_bad)
  next
    case (Inl err)
    show ?thesis
    proof (cases "e < clock (snd (poll E url w))")
      case True
      then show ?thesis
        by (simp add: waitForAppToStart_loop_timeout[OF Inl True])
    next
      case False
      then have le: "clock (snd (poll E url w)) \<le> e" by simp
      have "\<not> e < clock (snd (client_Get E url (emit (LogPrint ''.'') w)))"
        and "fst (client_Get E url (emit (LogPrint ''.'') w)) = Inl err"
        using False Inl unfolding poll_def by blast+
      from "1.IH"[OF refl refl this(2) this(1)]
      show ?thesis
        unfolding waitForAppToStart_loop_retry[OF Inl le] poll_def .
    qed
  qed
qed

lemma waitForAppToStart_unfold:
  "waitForAppToStart E port app w =
     waitForAppToStart_loop E (health_url port app) (clock w + MAX_STARTUP_TIME) w"
  unfolding waitForAppToStart_def health_url_def Let_def by (rule refl)

lemma demo_health_url: "health_url 8050 demo_app = ''http://localhost:8050/healthz''"
  by (simp add: health_url_def demo_app_def fmt_d_def digit_char_def)

lemma failing_poll:
  "poll failing_env url w =
     (Inr 500, w\<lparr>clock := clock w + 1000000, trace := trace w @ [LogPrint ''.'', HttpGet url]\<rparr>)"
  by (simp add: poll_def client_Get_def emit_def Let_def failing_env_def demo_env_def
      MAX_HEALTH_CHECK_TIME_def Second_ns_def Millisecond_def)

lemma late_failing_poll:
  "poll late_failing_env url w =
     (if 300000000 \<le> clock w then Inr 500 else Inl (url_Error (lib_error ''connection refused'')),
      w\<lparr>clock := clock w + 1000000, trace := trace w @ [LogPrint ''.'', HttpGet url]\<rparr>)"
  by (simp add: poll_def client_Get_def emit_def Let_def late_failing_env_def demo_env_def
      MAX_HEALTH_CHECK_TIME_def Second_ns_def Millisecond_def)

text \<open>
  Claim C3. The checker \<^verbatim>\<open>waitForAppToStart\<close> is the loop run on the health URL with the
  deadline one \<open>MAX_STARTUP_TIME\<close> after its start. When a poll of the loop, at any
  iteration, completes with a status code other than 200, the loop returns at once with
  the error "Health check failed <code>" (\<open>BadStatus code\<close>): the world it returns is the
  one after this poll with one more log line, so the trace gains the dot, this one
  request and the line of the bad status, with no sleep and no further request. In
  particular the checker returns so when its first poll completes with such a code.
\<close>

theorem bad_status_fails_immediately:
  assumes "code \<noteq> 200"
  shows "waitForAppToStart E port app w =
           waitForAppToStart_loop E (health_url port app) (clock w + MAX_STARTUP_TIME) w \<and>
         (fst (poll E url w) = Inr code \<longrightarrow>
            waitForAppToStart_loop E url end' w =
              (Some (BadStatus code),
               (snd (poll E url w))
                 \<lparr>trace := trace w @ [LogPrint ''.'', HttpGet url,
                                      LogPrint (''bad: '' @ fmt_d code)]\<rparr>)) \<and>
         (fst (poll E (health_url port app) w) = Inr code \<longrightarrow>
            waitForAppToStart E port app w =
              (Some (BadStatus code),
               (snd (poll E (health_url port app) w))
                 \<lparr>trace := trace w @ [LogPrint ''.'', HttpGet (health_url port app),
                                      LogPrint (''bad: '' @ fmt_d code)]\<rparr>))"
proof (intro conjI impI)
  show "waitForAppToStart E port app w =
      waitForAppToStart_loop E (health_url port app) (clock w + MAX_STARTUP_TIME) w"
    by (rule waitForAppToStart_unfold)
next
  assume "fst (poll E url w) = Inr code"
  then show "waitForAppToStart_loop E url end' w =
      (Some (BadStatus code),
       (snd (poll E url w))
         \<lparr>trace := trace w @ [LogPrint ''.'', HttpGet url, LogPrint (''bad: '' @ fmt_d code)]\<rparr>)"
    using assms by (simp add: waitForAppToStart_loop_bad emit_def poll_trace)
next
  assume "fst (poll E (health_url port app) w) = Inr code"
  then show "waitForAppToStart E port app w =
      (Some (BadStatus code),
       (snd (poll E (health_url port app) w))
         \<lparr>trace := trace w @ [LogPrint ''.'', HttpGet (health_url port app),
                              LogPrint (''bad: '' @ fmt_d code)]\<rparr>)"
    using assms
    by (simp add: waitForAppToStart_unfold waitForAppToStart_loop_bad emit_def poll_trace)
qed

text \<open>An application that answers 500 to the first poll, and one that answers 500 to
  the fourth poll, after three refused connections.\<close>

theorem bad_status_fails_immediately_witness:
  "(500::int) \<noteq> 200 \<and>
   fst (poll failing_env (health_url 8050 demo_app) demo_world) = Inr 500 \<and>
   waitForAppToStart failing_env 8050 demo_app demo_world =
     (Some (BadStatus 500),
      demo_world\<lparr>clock := 1000000,
        trace := [LogPrint ''.'', HttpGet ''http://localhost:8050/healthz'',
                  LogPrint ''bad: 500'']\<rparr>) \<and>
   waitForAppToStart late_failing_env 8050 demo_app demo_world =
     (Some (BadStatus 500),
      demo_world\<lparr>clock := 304000000,
        trace := [LogPrint ''.'', HttpGet ''http://localhost:8050/healthz'', Sleep 100000000,
                  LogPrint ''.'', HttpGet ''http://localhost:8050/healthz'', Sleep 100000000,
                  LogPrint ''.'', HttpGet ''http://localhost:8050/healthz'', Sleep 100000000,
                  LogPrint ''.'', HttpGet ''http://localhost:8050/healthz'',
                  LogPrint ''bad: 500'']\<rparr>)"
proof -
  have n: "(500::int) \<noteq> 200" by simp
  note T = bad_status_fails_immediately[OF n]
  have f500: "fmt_d 500 = ''500''"
    by (simp add: fmt_d_def digit_char_def)
  have p: "fst (poll failing_env (health_url 8050 demo_app) demo_world) = Inr 500"
    by (simp add: failing_poll)
  from T[of failing_env 8050 demo_app demo_world] p
  have 1: "waitForAppToStart failing_env 8050 demo_app demo_world =
     (Some (BadStatus 500),
      demo_world\<lparr>clock := 1000000,
        trace := [LogPrint ''.'', HttpGet ''http://localhost:8050/healthz'',
                  LogPrint ''bad: 500'']\<rparr>)"
    by (simp add: failing_poll demo_health_url demo_world_def f500)
  have unf: "waitForAppToStart late_failing_env 8050 demo_app demo_world =
      waitForAppToStart_loop late_failing_env (health_url 8050 demo_app)
        (clock demo_world + MAX_STARTUP_TIME) demo_world"
    using T[of late_failing_env 8050 demo_app demo_world] by blast
  have bad: "fst (poll late_failing_env url w) = Inr 500 \<Longrightarrow>
      waitForAppToStart_loop late_failing_env url end' w =
        (Some (BadStatus 500),
         (snd (poll late_failing_env url w))
           \<lparr>trace := trace w @ [LogPrint ''.'', HttpGet url, LogPrint (''bad: '' @ fmt_d 500)]\<rparr>)"
    for url w end'
    using T[of late_failing_env 8050 demo_app w url end'] by blast
  have 2: "waitForAppToStart late_failing_env 8050 demo_app demo_world =
     (Some (BadStatus 500),
      demo_world\<lparr>clock := 304000000,
        trace := [LogPrint ''.'', HttpGet ''http://localhost:8050/healthz'', Sleep 100000000,
                  LogPrint ''.'', HttpGet ''http://localhost:8050/healthz'', Sleep 100000000,
                  LogPrint ''.'', HttpGet ''http://localhost:8050/healthz'', Sleep 100000000,
                  LogPrint ''.'', HttpGet ''http://localhost:8050/healthz'',
                  LogPrint ''bad: 500'']\<rparr>)"
    unfolding unf
    by (simp add: demo_health_url waitForAppToStart_loop_retry_ex bad late_failing_poll
        demo_world_def time_Sleep_def emit_def f500 STARTUP_HEALTH_CHECK_INTERVAL_def
        MAX_STARTUP_TIME_def Second_ns_def Millisecond_def)
  from n p 1 2 show ?thesis by blast
qed


lemma demo_poll:
  "poll demo_env url w =
     (if 300000000 \<le> clock w then Inr 200 else Inl (url_Error (lib_error ''connection refused'')),
      w\<lparr>clock := clock w + 1000000, trace := trace w @ [LogPrint ''.'', HttpGet url]\<rparr>)"
  by (simp add: poll_def client_Get_def emit_def Let_def demo_env_def MAX_HEALTH_CHECK_TIME_def
      Second_ns_def Millisecond_def)


lemma redirect_poll:
  "poll redirect_env url w =
     (if clock w < 50000000 then Inl (url_Error (errors_New ''health check should not redirect''))
      else Inr 200,
      w\<lparr>clock := clock w + 1000000, trace := trace w @ [LogPrint ''.'', HttpGet url]\<rparr>)"
  by (simp add: poll_def client_Get_def emit_def Let_def redirect_env_def demo_env_def
      MAX_HEALTH_CHECK_TIME_def Second_ns_def Millisecond_def CheckRedirect_def
      is_redirect_status_def)

lemma looping_poll:
  "poll looping_env url w =
     (Inl (url_Error (errors_New ''health check should not redirect'')),
      w\<lparr>clock := clock w + 1000000, trace := trace w @ [LogPrint ''.'', HttpGet url]\<rparr>)"
  by (simp add: poll_def client_Get_def emit_def Let_def looping_env_def demo_env_def
      MAX_HEALTH_CHECK_TIME_def Second_ns_def Millisecond_def CheckRedirect_def
      is_redirect_status_def)

text \<open>
  Claim C2. The claim is what the code sets out to do and misses. The client is built
  with a \<^verbatim>\<open>CheckRedirect\<close> that rejects every redirect with the error "health check should
  not redirect", so a redirect is meant to fail the check; but \<^verbatim>\<open>Get\<close> then returns a
  non-nil error, and the loop has one branch for every error of \<^verbatim>\<open>Get\<close>: it tests the
  deadline, sleeps and polls again, and the only error it can return from there is
  "Failed to connect to app after timeout". The error of \<^verbatim>\<open>CheckRedirect\<close> is never
  returned nor logged. Evaluated on two applications: the first answers the first poll
  with \<^verbatim>\<open>302 Location: /login\<close> and later polls with 200, and the check ends in success
  after a sleep and a second request; the second answers every poll with that redirect,
  and the check polls eleven times and returns the timeout error once the deadline of one
  second has passed, where the claim has it fail on the first poll.
\<close>

theorem redirect_is_retried:
  "outcome (http_server redirect_env ''http://localhost:8050/healthz'' (clock demo_world))
     = RespondedLocation 302 ''/login'' \<and>
   fst (poll redirect_env ''http://localhost:8050/healthz'' demo_world)
     = Inl (url_Error (errors_New ''health check should not redirect'')) \<and>
   waitForAppToStart redirect_env 8050 demo_app demo_world =
     (None, demo_world\<lparr>clock := 102000000,
        trace := [LogPrint ''.'', HttpGet ''http://localhost:8050/healthz'', Sleep 100000000,
                  LogPrint ''.'', HttpGet ''http://localhost:8050/healthz'',
                  LogPrint ''ok'']\<rparr>) \<and>
   waitForAppToStart looping_env 8050 demo_app demo_world =
     (Some StartupTimeout, demo_world\<lparr>clock := 1011000000,
        trace := concat (replicate 10 [LogPrint ''.'', HttpGet ''http://localhost:8050/healthz'',
                                       Sleep 100000000])
                 @ [LogPrint ''.'', HttpGet ''http://localhost:8050/healthz'']\<rparr>)"
proof (intro conjI)
  show "outcome (http_server redirect_env ''http://localhost:8050/healthz'' (clock demo_world))
     = RespondedLocation 302 ''/login''"
    by (simp add: redirect_env_def demo_world_def Millisecond_def)
next
  show "fst (poll redirect_env ''http://localhost:8050/healthz'' demo_world)
     = Inl (url_Error (errors_New ''health check should not redirect''))"
    by (simp add: redirect_poll demo_world_def)
next
  let ?url = "''http://localhost:8050/healthz''"
  let ?w1 = "time_Sleep STARTUP_HEALTH_CHECK_INTERVAL (snd (poll redirect_env ?url demo_world))"
  have "waitForAppToStart_loop redirect_env ?url 1000000000 demo_world =
      waitForAppToStart_loop redirect_env ?url 1000000000 ?w1"
    by (rule waitForAppToStart_loop_retry) (simp_all add: redirect_poll demo_world_def)
  also have "\<dots> = (None, emit (LogPrint ''ok'') (snd (poll redirect_env ?url ?w1)))"
    by (rule waitForAppToStart_loop_ok)
      (simp add: redirect_poll demo_world_def time_Sleep_def emit_def
        STARTUP_HEALTH_CHECK_INTERVAL_def Millisecond_def)
  finally show "waitForAppToStart redirect_env 8050 demo_app demo_world =
     (None, demo_world\<lparr>clock := 102000000,
        trace := [LogPrint ''.'', HttpGet ''http://localhost:8050/healthz'', Sleep 100000000,
                  LogPrint ''.'', HttpGet ''http://localhost:8050/healthz'',
                  LogPrint ''ok'']\<rparr>)"
    by (simp add: waitForAppToStart_unfold demo_health_url redirect_poll demo_world_def
        time_Sleep_def emit_def STARTUP_HEALTH_CHECK_INTERVAL_def MAX_STARTUP_TIME_def
        Second_ns_def Millisecond_def)
next
  show "waitForAppToStart looping_env 8050 demo_app demo_world =
     (Some StartupTimeout, demo_world\<lparr>clock := 1011000000,
        trace := concat (replicate 10 [LogPrint ''.'', HttpGet ''http://localhost:8050/healthz'',
                                       Sleep 100000000])
                 @ [LogPrint ''.'', HttpGet ''http://localhost:8050/healthz'']\<rparr>)"
    by (simp add: waitForAppToStart_unfold demo_health_url
        waitForAppToStart_loop_retry_ex waitForAppToStart_loop_timeout_ex looping_poll
        time_Sleep_def emit_def demo_world_def STARTUP_HEALTH_CHECK_INTERVAL_def
        MAX_STARTUP_TIME_def Second_ns_def Millisecond_def eval_nat_numeral)
qed

section \<open>The registry file\<close>

lemma readConfig_unreadable:
  "ioutil_ReadFile p w = Inl err \<Longrightarrow>
   readConfig E p w = Inr \<lparr>Ports = Some Map.empty, Labels = Some Map.empty\<rparr>"
  by (simp add: readConfig_def)


lemma readConfig_Inl:
  "readConfig E p w = Inl e \<longleftrightarrow>
     (\<exists>data. ioutil_ReadFile p w = Inr data \<and> json_Unmarshal E data = Inl e)"
  by (auto simp: readConfig_def Let_def split: sum.splits)

text \<open>The maps of a registry that has been loaded are never \<^verbatim>\<open>nil\<close>, so the assignment
  in \<^verbatim>\<open>Run\<close> does not panic on a server built from it.\<close>

lemma readConfig_maps_allocated:
  "readConfig E p w = Inr c \<Longrightarrow> Ports c \<noteq> None \<and> Labels c \<noteq> None"
  by (auto simp: readConfig_def Let_def split: sum.splits if_splits)

text \<open>
  Claim C10. \<^verbatim>\<open>readConfig\<close> returns a registry with two empty maps and no error whenever
  \<^verbatim>\<open>ioutil.ReadFile\<close> fails, whatever the reason: the file is missing, or it exists and
  cannot be read. It returns an error only in one case: the file has been read and
  \<^verbatim>\<open>json.Unmarshal\<close> rejects its contents; the error is that of \<^verbatim>\<open>json.Unmarshal\<close>.
\<close>

theorem readConfig_swallows_read_errors:
  "((\<exists>err. ioutil_ReadFile p w = Inl err) \<longrightarrow>
      readConfig E p w = Inr \<lparr>Ports = Some Map.empty, Labels = Some Map.empty\<rparr>) \<and>
   (files w p = Missing \<or> files w p = Denied \<longrightarrow> (\<exists>err. ioutil_ReadFile p w = Inl err)) \<and>
   (readConfig E p w = Inl e \<longleftrightarrow>
      (\<exists>data. ioutil_ReadFile p w = Inr data \<and> json_Unmarshal E data = Inl e))"
proof (intro conjI impI)
  assume "\<exists>err. ioutil_ReadFile p w = Inl err"
  then show "readConfig E p w = Inr \<lparr>Ports = Some Map.empty, Labels = Some Map.empty\<rparr>"
    by (auto simp: readConfig_unreadable)
next
  assume "files w p = Missing \<or> files w p = Denied"
  then show "\<exists>err. ioutil_ReadFile p w = Inl err"
    by (auto simp: ioutil_ReadFile_def)
next
  show "readConfig E p w = Inl e \<longleftrightarrow>
      (\<exists>data. ioutil_ReadFile p w = Inr data \<and> json_Unmarshal E data = Inl e)"
    by (rule readConfig_Inl)
qed

theorem readConfig_swallows_read_errors_witness:
  "files denied_world ''/srv/camus/config.json'' = Denied \<and>
   readConfig demo_env ''/srv/camus/config.json'' denied_world
     = Inr \<lparr>Ports = Some Map.empty, Labels = Some Map.empty\<rparr> \<and>
   files demo_world ''/srv/camus/config.json'' = Missing \<and>
   readConfig demo_env ''/srv/camus/config.json'' demo_world
     = Inr \<lparr>Ports = Some Map.empty, Labels = Some Map.empty\<rparr> \<and>
   readConfig demo_env ''/srv/camus/deploys/d1/deploy.json'' demo_world
     = Inl (lib_error ''invalid character'')"
proof -
  let ?cfg = "''/srv/camus/config.json''"
  let ?other = "''/srv/camus/deploys/d1/deploy.json''"
  have d: "files denied_world ?cfg = Denied"
    by (simp add: denied_world_def)
  have m: "files demo_world ?cfg = Missing"
    by (simp add: demo_world_def)
  have r: "ioutil_ReadFile ?other demo_world = Inr ''manifest''"
    by (simp add: ioutil_ReadFile_def demo_world_def)
  have u: "json_Unmarshal demo_env ''manifest'' = Inl (lib_error ''invalid character'')"
    by (simp add: demo_env_def demo_json_def)
  show ?thesis
    using d m r u
      readConfig_swallows_read_errors[of ?cfg denied_world demo_env]
      readConfig_swallows_read_errors[of ?cfg demo_world demo_env]
      readConfig_swallows_read_errors[of ?other demo_world demo_env "lib_error ''invalid character''"]
    by simp
qed




section \<open>Deploy identifiers\<close>

lemma is_digit_digit_char: "is_digit (digit_char n)"
proof -
  have "n mod 10 < length ''0123456789''" by simp
  then have "''0123456789'' ! (n mod 10) \<in> set ''0123456789''"
    by (rule nth_mem)
  then show ?thesis
    unfolding is_digit_def digit_char_def .
qed

lemma nat_decimal_1: "n < 10 \<Longrightarrow> nat_decimal n = [digit_char n]"
  by (simp add: nat_decimal.simps)

lemma nat_decimal_2:
  "10 \<le> n \<Longrightarrow> n < 100 \<Longrightarrow> nat_decimal n = [digit_char (n div 10), digit_char n]"
  by (subst nat_decimal.simps) (simp add: nat_decimal_1)

lemma nat_decimal_3:
  "100 \<le> n \<Longrightarrow> n < 1000 \<Longrightarrow>
   nat_decimal n = [digit_char (n div 10 div 10), digit_char (n div 10), digit_char n]"
  by (subst nat_decimal.simps) (simp add: nat_decimal_2)

lemma nat_decimal_4:
  "1000 \<le> n \<Longrightarrow> n < 10000 \<Longrightarrow>
   nat_decimal n = [digit_char (n div 10 div 10 div 10), digit_char (n div 10 div 10),
                    digit_char (n div 10), digit_char n]"
  by (subst nat_decimal.simps) (simp add: nat_decimal_3)

lemma fmt_02d_two_digits:
  assumes "0 \<le> i" and "i < 100"
  shows "\<exists>a b. fmt_02d i = [a, b] \<and> is_digit a \<and> is_digit b"
proof (cases "i < 10")
  case True
  then have "fmt_02d i = [CHR ''0'', digit_char (nat i)]"
    using assms by (simp add: fmt_02d_def fmt_d_def nat_decimal_1)
  moreover have "is_digit CHR ''0''" by (simp add: is_digit_def)
  ultimately show ?thesis using is_digit_digit_char by blast
next
  case False
  then have "fmt_02d i = [digit_char (nat i div 10), digit_char (nat i)]"
    using assms by (simp add: fmt_02d_def fmt_d_def nat_decimal_2)
  then show ?thesis using is_digit_digit_char by blast
qed

lemma fmt_d_four_digits:
  assumes "1000 \<le> i" and "i \<le> 9999"
  shows "\<exists>a b c d. fmt_d i = [a, b, c, d] \<and> is_digit a \<and> is_digit b \<and> is_digit c \<and> is_digit d"
proof -
  have "fmt_d i = [digit_char (nat i div 10 div 10 div 10), digit_char (nat i div 10 div 10),
                   digit_char (nat i div 10), digit_char (nat i)]"
    using assms by (simp add: fmt_d_def nat_decimal_4)
  then show ?thesis using is_digit_digit_char by blast
qed

lemma digit_val_digit_char: "digit_val (digit_char n) = n mod 10"
proof -
  have "of_char (''0123456789'' ! k) = (48 + k :: nat)" if "k < 10" for k
  proof -
    from that have "k = 0 \<or> k = 1 \<or> k = 2 \<or> k = 3 \<or> k = 4 \<or> k = 5 \<or> k = 6 \<or> k = 7 \<or> k = 8 \<or> k = 9"
      by arith
    then show ?thesis by (elim disjE) simp_all
  qed
  from this[of "n mod 10"] show ?thesis
    by (simp add: digit_val_def digit_char_def)
qed

lemma read_decimal_snoc: "read_decimal (s @ [c]) = 10 * read_decimal s + digit_val c"
  by (simp add: read_decimal_def)

lemma read_decimal_nat_decimal: "read_decimal (nat_decimal n) = n"
proof (induction n rule: nat_decimal.induct)
  case (1 n)
  show ?case
  proof (cases "n < 10")
    case True
    then show ?thesis
      by (simp add: nat_decimal_1 read_decimal_def digit_val_digit_char)
  next
    case False
    then have "nat_decimal n = nat_decimal (n div 10) @ [digit_char n]"
      by (subst nat_decimal.simps) simp
    then show ?thesis
      using "1.IH"[OF False] by (simp add: read_decimal_snoc digit_val_digit_char)
  qed
qed

lemma read_decimal_fmt_d: "0 \<le> i \<Longrightarrow> int (read_decimal (fmt_d i)) = i"
  by (simp add: fmt_d_def read_decimal_nat_decimal)

lemma read_decimal_fmt_02d: "0 \<le> i \<Longrightarrow> int (read_decimal (fmt_02d i)) = i"
proof -
  assume "0 \<le> i"
  have "read_decimal (CHR ''0'' # cs) = read_decimal cs" for cs
  proof -
    have "foldl (\<lambda>a c. 10 * a + digit_val c) (10 * 0 + digit_val CHR ''0'') cs
        = foldl (\<lambda>a c. 10 * a + digit_val c) 0 cs"
      by (simp add: digit_val_def)
    then show ?thesis by (simp add: read_decimal_def)
  qed
  then show ?thesis
    using \<open>0 \<le> i\<close> by (simp add: fmt_02d_def read_decimal_fmt_d)
qed

text \<open>The id of a clock reading with a four-digit year spells its six fields.\<close>

lemma NewDeployDir_fields:
  assumes "valid_clock_reading t" and "1000 \<le> Year t" and "Year t \<le> 9999"
  shows "id_fields (DeployId (NewDeployDir E s t)) =
           (Year t, Month t, Day t, Hour t, Minute t, Second t)"
proof -
  from assms(2,3) obtain y1 y2 y3 y4 where y: "fmt_d (Year t) = [y1, y2, y3, y4]"
    using fmt_d_four_digits by blast
  from assms(1) obtain mo1 mo2 where mo: "fmt_02d (Month t) = [mo1, mo2]"
    using fmt_02d_two_digits[of "Month t"] by (auto simp: valid_clock_reading_def)
  from assms(1) obtain d1 d2 where d: "fmt_02d (Day t) = [d1, d2]"
    using fmt_02d_two_digits[of "Day t"] by (auto simp: valid_clock_reading_def)
  from assms(1) obtain h1 h2 where h: "fmt_02d (Hour t) = [h1, h2]"
    using fmt_02d_two_digits[of "Hour t"] by (auto simp: valid_clock_reading_def)
  from assms(1) obtain mi1 mi2 where mi: "fmt_02d (Minute t) = [mi1, mi2]"
    using fmt_02d_two_digits[of "Minute t"] by (auto simp: valid_clock_reading_def)
  from assms(1) obtain s1 s2 where se: "fmt_02d (Second t) = [s1, s2]"
    using fmt_02d_two_digits[of "Second t"] by (auto simp: valid_clock_reading_def)
  have r: "int (read_decimal [y1, y2, y3, y4]) = Year t"
    "int (read_decimal [mo1, mo2]) = Month t"
    "int (read_decimal [d1, d2]) = Day t"
    "int (read_decimal [h1, h2]) = Hour t"
    "int (read_decimal [mi1, mi2]) = Minute t"
    "int (read_decimal [s1, s2]) = Second t"
    using assms read_decimal_fmt_d[of "Year t"] read_decimal_fmt_02d[of "Month t"]
      read_decimal_fmt_02d[of "Day t"] read_decimal_fmt_02d[of "Hour t"]
      read_decimal_fmt_02d[of "Minute t"] read_decimal_fmt_02d[of "Second t"]
    unfolding y mo d h mi se valid_clock_reading_def by simp_all
  have "DeployId (NewDeployDir E s t) =
      [y1, y2, y3, y4, CHR ''-'', mo1, mo2, CHR ''-'', d1, d2, CHR ''-'', h1, h2, CHR ''-'',
       mi1, mi2, CHR ''-'', s1, s2]"
    by (simp add: NewDeployDir_def Let_def y mo d h mi se)
  then show ?thesis
    by (simp add: id_fields_def r)
qed

text \<open>
  Claim C9. \<^verbatim>\<open>NewDeployDir\<close> derives the deploy id from the year, month, day, hour, minute
  and second of the local time, and from nothing else. For a clock reading with a
  four-digit year (the year is printed with \<^verbatim>\<open>%d\<close>, without padding; the other fields
  with \<^verbatim>\<open>%02d\<close>) the id matches \<^verbatim>\<open>YYYY-MM-DD-HH-MM-SS\<close> and spells the six fields: read back
  at these positions, it gives the year, month, day, hour, minute and second of the
  reading. The path returned is the join of the root, \<^verbatim>\<open>deploys\<close> and the id. Two readings
  within the same second give the same id, on any server; two such readings in different
  seconds give different ids.
\<close>

theorem NewDeployDir_id:
  assumes "valid_clock_reading t" and "1000 \<le> Year t" and "Year t \<le> 9999"
  shows "matches_pattern ''YYYY-MM-DD-HH-MM-SS'' (DeployId (NewDeployDir E s t)) \<and>
         id_fields (DeployId (NewDeployDir E s t)) =
           (Year t, Month t, Day t, Hour t, Minute t, Second t) \<and>
         Path (NewDeployDir E s t) = path_Join E [root s, deployPath, DeployId (NewDeployDir E s t)] \<and>
         (\<forall>t' E' s'. same_second t t' \<longrightarrow>
            DeployId (NewDeployDir E' s' t') = DeployId (NewDeployDir E s t)) \<and>
         (\<forall>t' E' s'. valid_clock_reading t' \<and> 1000 \<le> Year t' \<and> Year t' \<le> 9999 \<and>
            DeployId (NewDeployDir E' s' t') = DeployId (NewDeployDir E s t) \<longrightarrow>
            same_second t t')"
proof (intro conjI allI impI)
  from assms(2,3) obtain y1 y2 y3 y4 where
    y: "fmt_d (Year t) = [y1, y2, y3, y4]" "is_digit y1" "is_digit y2" "is_digit y3" "is_digit y4"
    using fmt_d_four_digits by blast
  from assms(1) obtain mo1 mo2 where
    mo: "fmt_02d (Month t) = [mo1, mo2]" "is_digit mo1" "is_digit mo2"
    using fmt_02d_two_digits[of "Month t"] by (auto simp: valid_clock_reading_def)
  from assms(1) obtain d1 d2 where
    d: "fmt_02d (Day t) = [d1, d2]" "is_digit d1" "is_digit d2"
    using fmt_02d_two_digits[of "Day t"] by (auto simp: valid_clock_reading_def)
  from assms(1) obtain h1 h2 where
    h: "fmt_02d (Hour t) = [h1, h2]" "is_digit h1" "is_digit h2"
    using fmt_02d_two_digits[of "Hour t"] by (auto simp: valid_clock_reading_def)
  from assms(1) obtain mi1 mi2 where
    mi: "fmt_02d (Minute t) = [mi1, mi2]" "is_digit mi1" "is_digit mi2"
    using fmt_02d_two_digits[of "Minute t"] by (auto simp: valid_clock_reading_def)
  from assms(1) obtain s1 s2 where
    se: "fmt_02d (Second t) = [s1, s2]" "is_digit s1" "is_digit s2"
    using fmt_02d_two_digits[of "Second t"] by (auto simp: valid_clock_reading_def)
  show "matches_pattern ''YYYY-MM-DD-HH-MM-SS'' (DeployId (NewDeployDir E s t))"
    by (simp add: NewDeployDir_def Let_def y mo d h mi se)
next
  show "id_fields (DeployId (NewDeployDir E s t)) =
      (Year t, Month t, Day t, Hour t, Minute t, Second t)"
    by (rule NewDeployDir_fields[OF assms])
next
  show "Path (NewDeployDir E s t) = path_Join E [root s, deployPath, DeployId (NewDeployDir E s t)]"
    by (simp add: NewDeployDir_def Let_def)
next
  fix t' E' s'
  assume "same_second t t'"
  then show "DeployId (NewDeployDir E' s' t') = DeployId (NewDeployDir E s t)"
    by (simp add: NewDeployDir_def Let_def same_second_def)
next
  fix t' :: clock_reading and E' :: env and s' :: ServerImpl
  assume a: "valid_clock_reading t' \<and> 1000 \<le> Year t' \<and> Year t' \<le> 9999 \<and>
      DeployId (NewDeployDir E' s' t') = DeployId (NewDeployDir E s t)"
  then have "id_fields (DeployId (NewDeployDir E' s' t'))
      = id_fields (DeployId (NewDeployDir E s t))"
    by simp
  moreover have "id_fields (DeployId (NewDeployDir E' s' t')) =
      (Year t', Month t', Day t', Hour t', Minute t', Second t')"
    using a by (intro NewDeployDir_fields) simp_all
  ultimately show "same_second t t'"
    using NewDeployDir_fields[OF assms, of E s] by (simp add: same_second_def)
qed

text \<open>Two readings within one second, and a reading one second later.\<close>

theorem NewDeployDir_id_witness:
  "valid_clock_reading demo_time \<and> 1000 \<le> Year demo_time \<and> Year demo_time \<le> 9999 \<and>
   same_second demo_time (demo_time\<lparr>Nanosecond := 999999999\<rparr>) \<and>
   NewDeployDir demo_env demo_server demo_time =
     \<lparr>DeployId = ''2014-03-09-07-05-00'', Path = ''/srv/camus/deploys/2014-03-09-07-05-00''\<rparr> \<and>
   matches_pattern ''YYYY-MM-DD-HH-MM-SS'' ''2014-03-09-07-05-00'' \<and>
   id_fields ''2014-03-09-07-05-00'' = (2014, 3, 9, 7, 5, 0) \<and>
   DeployId (NewDeployDir demo_env demo_server (demo_time\<lparr>Nanosecond := 999999999\<rparr>))
     = ''2014-03-09-07-05-00'' \<and>
   NewDeployDir demo_env demo_server (demo_time\<lparr>Second := 1\<rparr>) =
     \<lparr>DeployId = ''2014-03-09-07-05-01'', Path = ''/srv/camus/deploys/2014-03-09-07-05-01''\<rparr> \<and>
   \<not> same_second demo_time (demo_time\<lparr>Second := 1\<rparr>)"
proof -
  have v: "valid_clock_reading demo_time"
    by (simp add: valid_clock_reading_def demo_time_def)
  have y: "1000 \<le> Year demo_time" "Year demo_time \<le> 9999"
    by (simp_all add: demo_time_def)
  have v1: "valid_clock_reading (demo_time\<lparr>Second := 1\<rparr>) \<and> 1000 \<le> Year (demo_time\<lparr>Second := 1\<rparr>) \<and>
      Year (demo_time\<lparr>Second := 1\<rparr>) \<le> 9999"
    by (simp add: valid_clock_reading_def demo_time_def)
  have ss: "same_second demo_time (demo_time\<lparr>Nanosecond := 999999999\<rparr>)"
    by (simp add: same_second_def)
  have id: "NewDeployDir demo_env demo_server demo_time =
     \<lparr>DeployId = ''2014-03-09-07-05-00'', Path = ''/srv/camus/deploys/2014-03-09-07-05-00''\<rparr>"
    by (simp add: NewDeployDir_def Let_def demo_time_def demo_env_def demo_server_def
        join_slash_def deployPath_def fmt_d_def fmt_02d_def digit_char_def nat_decimal.simps)
  have id1: "NewDeployDir demo_env demo_server (demo_time\<lparr>Second := 1\<rparr>) =
     \<lparr>DeployId = ''2014-03-09-07-05-01'', Path = ''/srv/camus/deploys/2014-03-09-07-05-01''\<rparr>"
    by (simp add: NewDeployDir_def Let_def demo_time_def demo_env_def demo_server_def
        join_slash_def deployPath_def fmt_d_def fmt_02d_def digit_char_def nat_decimal.simps)
  note T = NewDeployDir_id[OF v y, of demo_env demo_server]
  have fields: "id_fields ''2014-03-09-07-05-00'' = (2014, 3, 9, 7, 5, 0)"
    using T unfolding id by (simp add: demo_time_def)
  have diff: "\<not> same_second demo_time (demo_time\<lparr>Second := 1\<rparr>)"
    by (simp add: same_second_def demo_time_def)
  have same: "DeployId (NewDeployDir demo_env demo_server (demo_time\<lparr>Nanosecond := 999999999\<rparr>))
      = ''2014-03-09-07-05-00''"
    using T ss unfolding id by simp
  have pat: "matches_pattern ''YYYY-MM-DD-HH-MM-SS'' ''2014-03-09-07-05-00''"
    using T unfolding id by simp
  from v y ss id pat fields same id1 diff show ?thesis
    by blast
qed

section \<open>Run\<close>

subsection \<open>The health check depends on the world through the clock only\<close>

lemma poll_frame:
  "clock u = clock w \<Longrightarrow>
   fst (poll E url u) = fst (poll E url w) \<and>
   snd (poll E url u) =
     u\<lparr>clock := clock (snd (poll E url w)), trace := trace u @ [LogPrint ''.'', HttpGet url]\<rparr>"
  by (simp add: poll_def client_Get_def emit_def Let_def)

lemma waitForAppToStart_loop_frame:
  "\<exists>r c evs.
     (\<forall>u. clock u = clock (w::world) \<longrightarrow>
        waitForAppToStart_loop E url e u = (r, u\<lparr>clock := c, trace := trace u @ evs\<rparr>)) \<and>
     (\<forall>ev\<in>set evs. is_health_event ev)"
proof (induction E url e w rule: waitForAppToStart_loop.induct)
  case (1 E url e w)
  show ?case
  proof (cases "fst (poll E url w)")
    case (Inr code)
    show ?thesis
    proof (cases "code = 200")
      case True
      have "waitForAppToStart_loop E url e u =
          (None, u\<lparr>clock := clock (snd (poll E url w)),
                   trace := trace u @ [LogPrint ''.'', HttpGet url, LogPrint ''ok'']\<rparr>)"
        if "clock u = clock w" for u
        using poll_frame[OF that, of E url] Inr True
        by (simp add: waitForAppToStart_loop_ok emit_def)
      then show ?thesis
        by (intro exI[of _ None] exI[of _ "clock (snd (poll E url w))"]
            exI[of _ "[LogPrint ''.'', HttpGet url, LogPrint ''ok'']"]) simp
    next
      case False
      have "waitForAppToStart_loop E url e u =
          (Some (BadStatus code), u\<lparr>clock := clock (snd (poll E url w)),
             trace := trace u @ [LogPrint ''.'', HttpGet url, LogPrint (''bad: '' @ fmt_d code)]\<rparr>)"
        if "clock u = clock w" for u
        using poll_frame[OF that, of E url] Inr False
        by (simp add: waitForAppToStart_loop_bad emit_def)
      then show ?thesis
        by (intro exI[of _ "Some (BadStatus code)"] exI[of _ "clock (snd (poll E url w))"]
            exI[of _ "[LogPrint ''.'', HttpGet url, LogPrint (''bad: '' @ fmt_d code)]"]) simp
    qed
  next
    case (Inl err)
    show ?thesis
    proof (cases "e < clock (snd (poll E url w))")
      case True
      have "waitForAppToStart_loop E url e u =
          (Some StartupTimeout, u\<lparr>clock := clock (snd (poll E url w)),
             trace := trace u @ [LogPrint ''.'', HttpGet url]\<rparr>)"
        if "clock u = clock w" for u
        using poll_frame[OF that, of E url] Inl True
        by (simp add: waitForAppToStart_loop_timeout)
      then show ?thesis
        by (intro exI[of _ "Some StartupTimeout"] exI[of _ "clock (snd (poll E url w))"]
            exI[of _ "[LogPrint ''.'', HttpGet url]"]) simp
    next
      case False
      let ?w' = "time_Sleep STARTUP_HEALTH_CHECK_INTERVAL (snd (poll E url w))"
      have "\<not> e < clock (snd (client_Get E url (emit (LogPrint ''.'') w)))"
        and "fst (client_Get E url (emit (LogPrint ''.'') w)) = Inl err"
        using False Inl by (simp_all add: poll_def)
      from "1.IH"[OF refl refl this(2) this(1)]
      obtain r c evs where
        nxt: "\<And>u'. clock u' = clock ?w' \<Longrightarrow>
               waitForAppToStart_loop E url e u' = (r, u'\<lparr>clock := c, trace := trace u' @ evs\<rparr>)"
        and hev: "\<forall>ev\<in>set evs. is_health_event ev"
        unfolding poll_def by blast
      have "waitForAppToStart_loop E url e u =
          (r, u\<lparr>clock := c,
               trace := trace u @ ([LogPrint ''.'', HttpGet url, Sleep STARTUP_HEALTH_CHECK_INTERVAL]
                        @ evs)\<rparr>)"
        if same: "clock u = clock w" for u
      proof -
        let ?u' = "time_Sleep STARTUP_HEALTH_CHECK_INTERVAL (snd (poll E url u))"
        have pu: "fst (poll E url u) = Inl err" "clock (snd (poll E url u)) \<le> e"
          using poll_frame[OF same, of E url] Inl False by simp_all
        have "clock ?u' = clock ?w'"
          using poll_frame[OF same, of E url] by (simp add: time_Sleep_def emit_def)
        from nxt[OF this] waitForAppToStart_loop_retry[OF pu]
        show ?thesis
          using poll_frame[OF same, of E url] by (simp add: time_Sleep_def emit_def)
      qed
      then show ?thesis
        using hev
        by (intro exI[of _ r] exI[of _ c]
            exI[of _ "[LogPrint ''.'', HttpGet url, Sleep STARTUP_HEALTH_CHECK_INTERVAL] @ evs"])
          simp
    qed
  qed
qed

lemma waitForAppToStart_frame:
  "\<exists>r c evs.
     (\<forall>u. clock u = clock (w::world) \<longrightarrow>
        waitForAppToStart E port app u = (r, u\<lparr>clock := c, trace := trace u @ evs\<rparr>)) \<and>
     (\<forall>ev\<in>set evs. is_health_event ev)"
proof -
  from waitForAppToStart_loop_frame[of w E "health_url port app" "clock w + MAX_STARTUP_TIME"]
  obtain r c evs where
    f: "\<And>u. clock u = clock w \<Longrightarrow>
          waitForAppToStart_loop E (health_url port app) (clock w + MAX_STARTUP_TIME) u
            = (r, u\<lparr>clock := c, trace := trace u @ evs\<rparr>)"
    and hev: "\<forall>ev\<in>set evs. is_health_event ev"
    by blast
  have "waitForAppToStart E port app u = (r, u\<lparr>clock := c, trace := trace u @ evs\<rparr>)"
    if "clock u = clock w" for u
    using f[OF that] that by (simp add: waitForAppToStart_unfold)
  then show ?thesis using hev by blast
qed

subsection \<open>The paths through \<^verbatim>\<open>Run\<close>\<close>

lemma findUnusedPort_same_dial:
  assumes "net_Dial E' = net_Dial E"
  shows "fst (findUnusedPort E' v) = fst (findUnusedPort E w)"
proof (cases "fst (findUnusedPort E w)")
  case (Inl e)
  then show ?thesis
    using assms findUnusedPort_loop_Inl[of E 8001 w e] findUnusedPort_loop_Inl[of E' 8001 v e]
    by (simp add: findUnusedPort_def)
next
  case (Inr p)
  then show ?thesis
    using assms findUnusedPort_loop_Inr[of E 8001 w p] findUnusedPort_loop_Inr[of E' 8001 v p]
    by (simp add: findUnusedPort_def)
qed

lemma Run_no_port:
  assumes "fst (findUnusedPort E w) = Inl err"
  shows "Run E s d w = (Some err, s, snd (findUnusedPort E w))"
  using assms by (cases "findUnusedPort E w") (simp add: Run_def)

lemma Run_no_manifest:
  assumes "fst (findUnusedPort E w) = Inr port"
      and "ApplicationFromConfig E (manifest_path E s d) (files w (manifest_path E s d)) = Inl err"
  shows "Run E s d w =
     (Some err, s, emit (LogPrint (''Found port  '' @ fmt_d port)) (snd (findUnusedPort E w)))"
proof -
  obtain w1 where f: "findUnusedPort E w = (Inr port, w1)"
    using assms(1) by (cases "findUnusedPort E w") simp
  have "files w1 = files w"
    using findUnusedPort_world[of E w] f by simp
  then show ?thesis
    using assms(2) f
    by (simp add: Run_def Let_def manifest_path_def deploy_dir_def emit_def)
qed

lemma Run_launch:
  assumes "fst (findUnusedPort E w) = Inr port"
      and "ApplicationFromConfig E (manifest_path E s d) (files w (manifest_path E s d)) = Inr app"
      and "assignPort port d s = Inr s1"
  shows "Run E s d w =
     (let w2 = emit (LogPrint (''Found port  '' @ fmt_d port)) (snd (findUnusedPort E w));
          w5 = emit (Println (RunCmd app port))
                 (emit (Println (deploy_dir E s d)) (snd (writeConfig E s1 w2)));
          cmd = launch_cmd E s d app port;
          w6 = emit (ProcStart cmd (cmd_Start E cmd)) w5
      in case cmd_Start E cmd of
           Some err \<Rightarrow> (Some err, s1, w6)
         | None \<Rightarrow> (fst (waitForAppToStart E port app w6), s1,
                     snd (waitForAppToStart E port app w6)))"
proof -
  obtain w1 where f: "findUnusedPort E w = (Inr port, w1)"
    using assms(1) by (cases "findUnusedPort E w") simp
  have "files w1 = files w"
    using findUnusedPort_world[of E w] f by simp
  then show ?thesis
    using assms(2,3) f
    by (simp add: Run_def Let_def manifest_path_def deploy_dir_def launch_cmd_def emit_def
        split: option.splits prod.splits)
qed

lemma Run_panic:
  assumes "fst (findUnusedPort E w) = Inr port"
      and "ApplicationFromConfig E (manifest_path E s d) (files w (manifest_path E s d)) = Inr app"
      and "assignPort port d s = Inl err"
  shows "Run E s d w =
     (Some err, s, emit (LogPrint (''Found port  '' @ fmt_d port)) (snd (findUnusedPort E w)))"
proof -
  obtain w1 where f: "findUnusedPort E w = (Inr port, w1)"
    using assms(1) by (cases "findUnusedPort E w") simp
  have "files w1 = files w"
    using findUnusedPort_world[of E w] f by simp
  then show ?thesis
    using assms(2,3) f
    by (simp add: Run_def Let_def manifest_path_def deploy_dir_def emit_def)
qed

text \<open>
  Claim C6. When the port allocation fails, \<^verbatim>\<open>Run\<close> returns its error, which is "Could
  not find free port"; when the allocation succeeds and the manifest cannot be resolved,
  \<^verbatim>\<open>Run\<close> returns the error of the resolver. In both cases the server, and with it the
  registry in memory, is returned as it was, and the world differs from the initial one
  in its trace only: every file is unchanged, and the events added are the probes of the
  allocator and, in the second case, the log line of the port found. Nothing is written
  and no process is started.
\<close>

theorem Run_aborts_without_side_effects:
  "(fst (findUnusedPort E w) = Inl err \<longrightarrow>
      err = NoFreePortAvailable \<and>
      Run E s d w =
        (Some err, s,
         w\<lparr>trace := trace w @ map (\<lambda>q. NetDial (dial_addr q)) [8001 .. 8099]\<rparr>)) \<and>
   (fst (findUnusedPort E w) = Inr port \<and>
    ApplicationFromConfig E (manifest_path E s d) (files w (manifest_path E s d)) = Inl err \<longrightarrow>
      Run E s d w =
        (Some err, s,
         w\<lparr>trace := trace w @ map (\<lambda>q. NetDial (dial_addr q)) [8001 .. port]
                      @ [LogPrint (''Found port  '' @ fmt_d port)]\<rparr>))"
proof (intro conjI impI)
  assume a: "fst (findUnusedPort E w) = Inl err"
  then show "err = NoFreePortAvailable"
    using findUnusedPort_loop_Inl[of E 8001 w err] by (simp add: findUnusedPort_def)
  show "Run E s d w =
        (Some err, s, w\<lparr>trace := trace w @ map (\<lambda>q. NetDial (dial_addr q)) [8001 .. 8099]\<rparr>)"
    using Run_no_port[OF a] findUnusedPort_world[of E w] a by simp
next
  assume "fst (findUnusedPort E w) = Inr port \<and>
    ApplicationFromConfig E (manifest_path E s d) (files w (manifest_path E s d)) = Inl err"
  then have a: "fst (findUnusedPort E w) = Inr port"
    and m: "ApplicationFromConfig E (manifest_path E s d) (files w (manifest_path E s d)) = Inl err"
    by simp_all
  show "Run E s d w =
        (Some err, s,
         w\<lparr>trace := trace w @ map (\<lambda>q. NetDial (dial_addr q)) [8001 .. port]
                      @ [LogPrint (''Found port  '' @ fmt_d port)]\<rparr>)"
    using Run_no_manifest[OF a m] findUnusedPort_world[of E w] a by (simp add: emit_def)
qed

lemma demo_paths:
  assumes "path_Join E = join_slash"
  shows "deploy_dir E demo_server ''d1'' = ''/srv/camus/deploys/d1''"
    and "manifest_path E demo_server ''d1'' = ''/srv/camus/deploys/d1/deploy.json''"
    and "config_file E demo_server = ''/srv/camus/config.json''"
  using assms
  by (simp_all add: deploy_dir_def manifest_path_def config_file_def demo_server_def
      join_slash_def deployPath_def configPath_def)

lemma demo_port:
  assumes "net_Dial E = net_Dial demo_env"
  shows "fst (findUnusedPort E w) = Inr 8050"
proof -
  have "(8001::int) \<le> 8050 \<and> (8050::int) < 8100 \<and> net_Dial E (dial_addr 8050) \<noteq> None \<and>
      (\<forall>q. 8001 \<le> q \<and> q < 8050 \<longrightarrow> net_Dial E (dial_addr q) = None)"
    using demo_occupied demo_free assms by simp
  then show ?thesis
    using findUnusedPort_loop_Inr[of E 8001 w 8050] by (simp add: findUnusedPort_def)
qed

theorem Run_aborts_without_side_effects_witness:
  "fst (findUnusedPort full_env demo_world) = Inl NoFreePortAvailable \<and>
   Run full_env demo_server ''d1'' demo_world =
     (Some NoFreePortAvailable, demo_server,
      demo_world\<lparr>trace := map (\<lambda>q. NetDial (dial_addr q)) [8001 .. 8099]\<rparr>) \<and>
   fst (findUnusedPort demo_env (demo_world\<lparr>files := (\<lambda>p. Missing)\<rparr>)) = Inr 8050 \<and>
   Run demo_env demo_server ''d1'' (demo_world\<lparr>files := (\<lambda>p. Missing)\<rparr>) =
     (Some (lib_error ''open deploy.json''), demo_server,
      demo_world\<lparr>files := (\<lambda>p. Missing),
                 trace := map (\<lambda>q. NetDial (dial_addr q)) [8001 .. 8050]
                          @ [LogPrint ''Found port  8050'']\<rparr>)"
proof -
  let ?v = "demo_world\<lparr>files := (\<lambda>p. Missing)\<rparr>"
  have full: "fst (findUnusedPort full_env demo_world) = Inl NoFreePortAvailable"
    using findUnusedPort_loop_Inl[of full_env 8001 demo_world NoFreePortAvailable]
    by (simp add: findUnusedPort_def full_env_def)
  have port: "fst (findUnusedPort demo_env ?v) = Inr 8050"
    by (rule demo_port) simp
  have man: "ApplicationFromConfig demo_env (manifest_path demo_env demo_server ''d1'')
      (files ?v (manifest_path demo_env demo_server ''d1'')) = Inl (lib_error ''open deploy.json'')"
    by (simp add: demo_env_def)
  have t0: "trace demo_world = []"
    by (simp add: demo_world_def)
  have f8050: "fmt_d 8050 = ''8050''"
    by (simp add: fmt_d_def digit_char_def)
  from Run_aborts_without_side_effects[of full_env demo_world NoFreePortAvailable demo_server
      "''d1''" 0] full
  have 1: "Run full_env demo_server ''d1'' demo_world =
     (Some NoFreePortAvailable, demo_server,
      demo_world\<lparr>trace := map (\<lambda>q. NetDial (dial_addr q)) [8001 .. 8099]\<rparr>)"
    by (simp only: t0 append_Nil)
  from Run_aborts_without_side_effects[of demo_env ?v "lib_error ''open deploy.json''"
      demo_server "''d1''" 8050] port man
  have 2: "Run demo_env demo_server ''d1'' ?v =
     (Some (lib_error ''open deploy.json''), demo_server,
      ?v\<lparr>trace := trace ?v @ map (\<lambda>q. NetDial (dial_addr q)) [8001 .. 8050]
                          @ [LogPrint (''Found port  '' @ fmt_d 8050)]\<rparr>)"
    by blast
  have 3: "?v\<lparr>trace := trace ?v @ map (\<lambda>q. NetDial (dial_addr q)) [8001 .. 8050]
                          @ [LogPrint (''Found port  '' @ fmt_d 8050)]\<rparr>
     = demo_world\<lparr>files := (\<lambda>p. Missing),
                 trace := map (\<lambda>q. NetDial (dial_addr q)) [8001 .. 8050]
                          @ [LogPrint ''Found port  8050'']\<rparr>"
    by (simp add: f8050 t0)
  show ?thesis
    using full port 1 2 unfolding 3 by blast
qed

subsection \<open>The scenario, evaluated\<close>

lemma demo_health:
  assumes "clock w = 0"
  shows "waitForAppToStart demo_env 8050 demo_app w =
     (None, w\<lparr>clock := 304000000,
        trace := trace w @
                 [LogPrint ''.'', HttpGet ''http://localhost:8050/healthz'', Sleep 100000000,
                  LogPrint ''.'', HttpGet ''http://localhost:8050/healthz'', Sleep 100000000,
                  LogPrint ''.'', HttpGet ''http://localhost:8050/healthz'', Sleep 100000000,
                  LogPrint ''.'', HttpGet ''http://localhost:8050/healthz'',
                  LogPrint ''ok'']\<rparr>)"
  using assms
  by (simp add: waitForAppToStart_unfold demo_health_url
      waitForAppToStart_loop_retry_ex waitForAppToStart_loop_ok demo_poll time_Sleep_def emit_def
      STARTUP_HEALTH_CHECK_INTERVAL_def MAX_STARTUP_TIME_def Second_ns_def Millisecond_def)

lemma dead_poll:
  "poll dead_env url w =
     (Inl (url_Error (lib_error ''connection refused'')),
      w\<lparr>clock := clock w + 1000000, trace := trace w @ [LogPrint ''.'', HttpGet url]\<rparr>)"
  by (simp add: poll_def client_Get_def emit_def Let_def dead_env_def demo_env_def
      MAX_HEALTH_CHECK_TIME_def Second_ns_def Millisecond_def)

text \<open>An application that never answers: eleven polls, the last one after the deadline
  of one second.\<close>

lemma dead_health:
  assumes "clock w = 0"
  shows "waitForAppToStart dead_env 8050 demo_app w =
     (Some StartupTimeout, w\<lparr>clock := 1011000000,
        trace := trace w @
          concat (replicate 10 [LogPrint ''.'', HttpGet ''http://localhost:8050/healthz'',
                                Sleep 100000000])
          @ [LogPrint ''.'', HttpGet ''http://localhost:8050/healthz'']\<rparr>)"
  using assms
  by (simp add: waitForAppToStart_unfold demo_health_url
      waitForAppToStart_loop_retry_ex waitForAppToStart_loop_timeout_ex dead_poll time_Sleep_def
      emit_def STARTUP_HEALTH_CHECK_INTERVAL_def MAX_STARTUP_TIME_def Second_ns_def
      Millisecond_def eval_nat_numeral)

subsection \<open>Persisting before launching\<close>

lemma assignPort_Inr:
  "assignPort port d s = Inr s1 \<Longrightarrow>
   root s1 = root s \<and> (\<exists>m. Ports (config s1) = Some m \<and> m port = Some d)"
  by (auto simp: assignPort_def split: option.splits)

lemma writeConfig_written:
  assumes "json_Marshal E (config s) = Inr data" and "files w (config_file E s) \<noteq> Denied"
  shows "writeConfig E s w =
     (None, w\<lparr>files := (files w)(config_file E s := Data data),
              trace := trace w @ [FileWrite (config_file E s) data None]\<rparr>)"
  using assms
  by (auto simp: writeConfig_def ioutil_WriteFile_def config_file_def emit_def
      split: file_state.splits)

lemma writeConfig_denied:
  assumes "json_Marshal E (config s) = Inr data" and "files w (config_file E s) = Denied"
  shows "writeConfig E s w =
     (Some (lib_error ''permission denied''),
      w\<lparr>trace := trace w @ [FileWrite (config_file E s) data
                               (Some (lib_error ''permission denied''))]\<rparr>)"
  using assms
  by (auto simp: writeConfig_def ioutil_WriteFile_def config_file_def emit_def)

lemma demo_assign:
  "assignPort 8050 ''d1'' demo_server = Inr (demo_server\<lparr>config := demo_config\<rparr>)"
  by (simp add: assignPort_def demo_server_def demo_config_def)

lemma demo_manifest:
  assumes "path_Join E = join_slash" and "ApplicationFromConfig E = ApplicationFromConfig demo_env"
    and "files w ''/srv/camus/deploys/d1/deploy.json'' = Data ''manifest''"
  shows "ApplicationFromConfig E (manifest_path E demo_server ''d1'')
           (files w (manifest_path E demo_server ''d1'')) = Inr demo_app"
  using assms by (simp add: demo_paths demo_env_def)

lemma demo_Run_denied:
  "Run demo_env demo_server ''d1'' denied_world =
     (None, demo_server\<lparr>config := demo_config\<rparr>,
      denied_world\<lparr>clock := 304000000,
        trace := map (\<lambda>q. NetDial (dial_addr q)) [8001 .. 8050] @
                 [LogPrint ''Found port  8050'',
                  FileWrite ''/srv/camus/config.json'' demo_json
                    (Some (lib_error ''permission denied'')),
                  Println ''/srv/camus/deploys/d1'',
                  Println ''myapp --port=8050'',
                  ProcStart \<lparr>Args = [''sh'', ''-c'', ''myapp --port=8050''],
                             Dir = ''/srv/camus/deploys/d1'', Setpgid = True\<rparr> None,
                  LogPrint ''.'', HttpGet ''http://localhost:8050/healthz'', Sleep 100000000,
                  LogPrint ''.'', HttpGet ''http://localhost:8050/healthz'', Sleep 100000000,
                  LogPrint ''.'', HttpGet ''http://localhost:8050/healthz'', Sleep 100000000,
                  LogPrint ''.'', HttpGet ''http://localhost:8050/healthz'',
                  LogPrint ''ok'']\<rparr>)"
proof -
  let ?s1 = "demo_server\<lparr>config := demo_config\<rparr>"
  have pj: "path_Join demo_env = join_slash" by (simp add: demo_env_def)
  have port: "fst (findUnusedPort demo_env denied_world) = Inr 8050"
    by (rule demo_port) simp
  have man: "ApplicationFromConfig demo_env (manifest_path demo_env demo_server ''d1'')
      (files denied_world (manifest_path demo_env demo_server ''d1'')) = Inr demo_app"
    by (rule demo_manifest) (simp_all add: pj denied_world_def demo_world_def)
  have w1: "snd (findUnusedPort demo_env denied_world) =
      denied_world\<lparr>trace := map (\<lambda>q. NetDial (dial_addr q)) [8001 .. 8050]\<rparr>"
    using findUnusedPort_world[of demo_env denied_world] port
    by (simp add: denied_world_def demo_world_def)
  have mar: "json_Marshal demo_env (config ?s1) = Inr demo_json"
    by (simp add: demo_env_def)
  have cf: "config_file demo_env ?s1 = ''/srv/camus/config.json''"
    using demo_paths(3)[OF pj] by (simp add: config_file_def)
  have wr: "writeConfig demo_env ?s1 w =
     (Some (lib_error ''permission denied''),
      w\<lparr>trace := trace w @ [FileWrite ''/srv/camus/config.json'' demo_json
                               (Some (lib_error ''permission denied''))]\<rparr>)"
    if "files w ''/srv/camus/config.json'' = Denied" for w
    using writeConfig_denied[OF mar, of w] that by (simp add: cf)
  have f8050: "fmt_d 8050 = ''8050''"
    by (simp add: fmt_d_def digit_char_def)
  have cmd: "launch_cmd demo_env demo_server ''d1'' demo_app 8050 =
      \<lparr>Args = [''sh'', ''-c'', ''myapp --port=8050''], Dir = ''/srv/camus/deploys/d1'',
       Setpgid = True\<rparr>"
    by (simp add: launch_cmd_def demo_paths(1)[OF pj] demo_app_def f8050)
  have st: "cmd_Start demo_env c = None" for c
    by (simp add: demo_env_def)
  have rc: "RunCmd demo_app 8050 = ''myapp --port=8050''"
    by (simp add: demo_app_def f8050)
  show ?thesis
    unfolding Run_launch[OF port man demo_assign] Let_def w1 cmd st f8050 rc
      demo_paths(1)[OF pj]
    by (simp add: wr demo_health emit_def denied_world_def demo_world_def)
qed

text \<open>
  Claim C1 says that the assignment is on disk before the launch in every run that passes
  the allocation and the manifest. \<^verbatim>\<open>Run\<close> discards the result of \<^verbatim>\<open>writeConfig\<close>: below,
  the registry file cannot be written, the process is started all the same, \<^verbatim>\<open>Run\<close>
  returns success, and the file holds no assignment.
\<close>

theorem Run_unwritable_registry_counterexample:
  "fst (findUnusedPort demo_env denied_world) = Inr 8050 \<and>
   ApplicationFromConfig demo_env ''/srv/camus/deploys/d1/deploy.json''
     (files denied_world ''/srv/camus/deploys/d1/deploy.json'') = Inr demo_app \<and>
   fst (Run demo_env demo_server ''d1'' denied_world) = None \<and>
   ProcStart \<lparr>Args = [''sh'', ''-c'', ''myapp --port=8050''], Dir = ''/srv/camus/deploys/d1'',
              Setpgid = True\<rparr> None
     \<in> set (trace (snd (snd (Run demo_env demo_server ''d1'' denied_world)))) \<and>
   files (snd (snd (Run demo_env demo_server ''d1'' denied_world))) ''/srv/camus/config.json''
     = Denied \<and>
   readConfig demo_env ''/srv/camus/config.json''
     (snd (snd (Run demo_env demo_server ''d1'' denied_world)))
     = Inr \<lparr>Ports = Some Map.empty, Labels = Some Map.empty\<rparr>"
proof -
  have port: "fst (findUnusedPort demo_env denied_world) = Inr 8050"
    by (rule demo_port) simp
  have man: "ApplicationFromConfig demo_env ''/srv/camus/deploys/d1/deploy.json''
     (files denied_world ''/srv/camus/deploys/d1/deploy.json'') = Inr demo_app"
    by (simp add: demo_env_def denied_world_def demo_world_def)
  have den: "files denied_world ''/srv/camus/config.json'' = Denied"
    by (simp add: denied_world_def)
  show ?thesis
    unfolding demo_Run_denied
    using port man den
    by (simp add: readConfig_def ioutil_ReadFile_def)
qed

text \<open>
  Claim C1, amended. In every run, on a server whose registry has been loaded, in which
  the allocation and the manifest resolution succeed and the registry file is written
  without error, \<^verbatim>\<open>Run\<close> records the port for the deploy in the registry in memory and
  writes the registry to its file before it starts the process: in the trace the write comes first, then the two printed lines, then the
  start of the process, and after that only events of the health check. Nothing is rolled
  back: whatever \<^verbatim>\<open>Run\<close> returns, and so also when the start or the health check fails,
  the server returned holds the assignment and the file holds the bytes written.
\<close>

theorem Run_persists_before_launch:
  assumes "fst (findUnusedPort E w) = Inr port"
      and "ApplicationFromConfig E (manifest_path E s d) (files w (manifest_path E s d)) = Inr app"
      and "assignPort port d s = Inr s1"
      and "json_Marshal E (config s1) = Inr data"
      and "files w (config_file E s) \<noteq> Denied"
  shows "\<exists>hc.
     fst (snd (Run E s d w)) = s1 \<and>
     (\<exists>m. Ports (config s1) = Some m \<and> m port = Some d) \<and>
     files (snd (snd (Run E s d w))) = (files w)(config_file E s := Data data) \<and>
     trace (snd (snd (Run E s d w))) =
       trace w @ map (\<lambda>q. NetDial (dial_addr q)) [8001 .. port] @
       [LogPrint (''Found port  '' @ fmt_d port),
        FileWrite (config_file E s) data None,
        Println (deploy_dir E s d),
        Println (RunCmd app port),
        ProcStart (launch_cmd E s d app port) (cmd_Start E (launch_cmd E s d app port))] @ hc \<and>
     (\<forall>ev\<in>set hc. is_health_event ev) \<and>
     (\<forall>err. cmd_Start E (launch_cmd E s d app port) = Some err \<longrightarrow>
        fst (Run E s d w) = Some err \<and> hc = []) \<and>
     (cmd_Start E (launch_cmd E s d app port) = None \<longrightarrow>
        fst (Run E s d w) =
          fst (waitForAppToStart E port app
                 (w\<lparr>files := (files w)(config_file E s := Data data)\<rparr>)))"
proof -
  let ?cmd = "launch_cmd E s d app port"
  let ?cfg = "config_file E s"
  let ?w2 = "emit (LogPrint (''Found port  '' @ fmt_d port)) (snd (findUnusedPort E w))"
  have cfg: "config_file E s1 = ?cfg"
    using assignPort_Inr[OF assms(3)] by (simp add: config_file_def)
  have w2: "?w2 = w\<lparr>trace := trace w @ map (\<lambda>q. NetDial (dial_addr q)) [8001 .. port]
                      @ [LogPrint (''Found port  '' @ fmt_d port)]\<rparr>"
    using findUnusedPort_world[of E w] assms(1) by (simp add: emit_def)
  have "files ?w2 (config_file E s1) \<noteq> Denied"
    using assms(5) unfolding w2 cfg by simp
  from writeConfig_written[OF assms(4) this]
  have w3: "snd (writeConfig E s1 ?w2) =
      w\<lparr>files := (files w)(?cfg := Data data),
        trace := trace w @ map (\<lambda>q. NetDial (dial_addr q)) [8001 .. port]
                 @ [LogPrint (''Found port  '' @ fmt_d port), FileWrite ?cfg data None]\<rparr>"
    unfolding w2 cfg by simp
  let ?w6 = "w\<lparr>files := (files w)(?cfg := Data data),
        trace := trace w @ map (\<lambda>q. NetDial (dial_addr q)) [8001 .. port]
                 @ [LogPrint (''Found port  '' @ fmt_d port), FileWrite ?cfg data None,
                    Println (deploy_dir E s d), Println (RunCmd app port),
                    ProcStart ?cmd (cmd_Start E ?cmd)]\<rparr>"
  have run: "Run E s d w =
      (case cmd_Start E ?cmd of
         Some err \<Rightarrow> (Some err, s1, ?w6)
       | None \<Rightarrow> (fst (waitForAppToStart E port app ?w6), s1,
                   snd (waitForAppToStart E port app ?w6)))"
    unfolding Run_launch[OF assms(1,2,3)] Let_def w3
    by (simp add: emit_def split: option.splits)
  have asg: "\<exists>m. Ports (config s1) = Some m \<and> m port = Some d"
    using assignPort_Inr[OF assms(3)] by simp
  show ?thesis
  proof (cases "cmd_Start E ?cmd")
    case (Some err)
    then have "Run E s d w = (Some err, s1, ?w6)"
      using run by simp
    then show ?thesis
      using asg Some by (intro exI[of _ "[]"]) simp
  next
    case None
    let ?u = "w\<lparr>files := (files w)(?cfg := Data data)\<rparr>"
    from waitForAppToStart_frame[of w E port app] obtain r c evs where
      fr: "\<And>u. clock u = clock w \<Longrightarrow>
             waitForAppToStart E port app u = (r, u\<lparr>clock := c, trace := trace u @ evs\<rparr>)"
      and hev: "\<forall>ev\<in>set evs. is_health_event ev"
      by blast
    have h6: "waitForAppToStart E port app ?w6 = (r, ?w6\<lparr>clock := c, trace := trace ?w6 @ evs\<rparr>)"
      by (rule fr) simp
    have hu: "waitForAppToStart E port app ?u = (r, ?u\<lparr>clock := c, trace := trace ?u @ evs\<rparr>)"
      by (rule fr) simp
    have "Run E s d w = (r, s1, ?w6\<lparr>clock := c, trace := trace ?w6 @ evs\<rparr>)"
      using run None h6 by simp
    then show ?thesis
      using asg None hev hu by (intro exI[of _ evs]) simp
  qed
qed

lemma dead_Run:
  "fst (Run dead_env demo_server ''d1'' demo_world) = Some StartupTimeout"
proof -
  have port: "fst (findUnusedPort dead_env demo_world) = Inr 8050"
    by (rule demo_port) (simp add: dead_env_def)
  have man: "ApplicationFromConfig dead_env (manifest_path dead_env demo_server ''d1'')
      (files demo_world (manifest_path dead_env demo_server ''d1'')) = Inr demo_app"
    by (rule demo_manifest) (simp_all add: dead_env_def demo_env_def demo_world_def)
  have st: "cmd_Start dead_env c = None" for c
    by (simp add: dead_env_def demo_env_def)
  have "clock (snd (findUnusedPort dead_env demo_world)) = 0"
    by (subst findUnusedPort_world) (simp add: demo_world_def)
  then show ?thesis
    unfolding Run_launch[OF port man demo_assign] Let_def st
    by (simp add: dead_health emit_def writeConfig_def ioutil_WriteFile_def
        split: sum.splits file_state.splits)
qed

theorem Run_persists_before_launch_witness:
  "fst (Run dead_env demo_server ''d1'' demo_world) = Some StartupTimeout \<and>
   fst (snd (Run dead_env demo_server ''d1'' demo_world)) = demo_server\<lparr>config := demo_config\<rparr> \<and>
   files (snd (snd (Run dead_env demo_server ''d1'' demo_world))) ''/srv/camus/config.json''
     = Data demo_json \<and>
   fst (Run nospawn_env demo_server ''d1'' demo_world)
     = Some (lib_error ''fork/exec: resource unavailable'') \<and>
   files (snd (snd (Run nospawn_env demo_server ''d1'' demo_world))) ''/srv/camus/config.json''
     = Data demo_json \<and>
   trace (snd (snd (Run nospawn_env demo_server ''d1'' demo_world))) =
     map (\<lambda>q. NetDial (dial_addr q)) [8001 .. 8050] @
     [LogPrint ''Found port  8050'',
      FileWrite ''/srv/camus/config.json'' demo_json None,
      Println ''/srv/camus/deploys/d1'',
      Println ''myapp --port=8050'',
      ProcStart \<lparr>Args = [''sh'', ''-c'', ''myapp --port=8050''], Dir = ''/srv/camus/deploys/d1'',
                 Setpgid = True\<rparr> (Some (lib_error ''fork/exec: resource unavailable''))]"
proof -
  let ?s1 = "demo_server\<lparr>config := demo_config\<rparr>"
  have f8050: "fmt_d 8050 = ''8050''"
    by (simp add: fmt_d_def digit_char_def)
  have rc: "RunCmd demo_app 8050 = ''myapp --port=8050''"
    by (simp add: demo_app_def f8050)
  have t0: "trace demo_world = []" by (simp add: demo_world_def)
  have wr: "files demo_world ''/srv/camus/config.json'' \<noteq> Denied"
    by (simp add: demo_world_def)
  \<comment> \<open>the application never answers\<close>
  have pjD: "path_Join dead_env = join_slash" by (simp add: dead_env_def demo_env_def)
  have portD: "fst (findUnusedPort dead_env demo_world) = Inr 8050"
    by (rule demo_port) (simp add: dead_env_def)
  have manD: "ApplicationFromConfig dead_env (manifest_path dead_env demo_server ''d1'')
      (files demo_world (manifest_path dead_env demo_server ''d1'')) = Inr demo_app"
    by (rule demo_manifest) (simp_all add: dead_env_def demo_env_def demo_world_def)
  have marD: "json_Marshal dead_env (config ?s1) = Inr demo_json"
    by (simp add: dead_env_def demo_env_def)
  have wrD: "files demo_world (config_file dead_env demo_server) \<noteq> Denied"
    using wr by (simp add: demo_paths(3)[OF pjD])
  from Run_persists_before_launch[OF portD manD demo_assign marD wrD]
  have D: "fst (snd (Run dead_env demo_server ''d1'' demo_world)) = ?s1 \<and>
      files (snd (snd (Run dead_env demo_server ''d1'' demo_world))) ''/srv/camus/config.json''
        = Data demo_json"
    by (auto simp: demo_paths(3)[OF pjD])
  \<comment> \<open>the process cannot be started\<close>
  have pjN: "path_Join nospawn_env = join_slash" by (simp add: nospawn_env_def demo_env_def)
  have portN: "fst (findUnusedPort nospawn_env demo_world) = Inr 8050"
    by (rule demo_port) (simp add: nospawn_env_def)
  have manN: "ApplicationFromConfig nospawn_env (manifest_path nospawn_env demo_server ''d1'')
      (files demo_world (manifest_path nospawn_env demo_server ''d1'')) = Inr demo_app"
    by (rule demo_manifest) (simp_all add: nospawn_env_def demo_env_def demo_world_def)
  have marN: "json_Marshal nospawn_env (config ?s1) = Inr demo_json"
    by (simp add: nospawn_env_def demo_env_def)
  have wrN: "files demo_world (config_file nospawn_env demo_server) \<noteq> Denied"
    using wr by (simp add: demo_paths(3)[OF pjN])
  have stN: "cmd_Start nospawn_env c = Some (lib_error ''fork/exec: resource unavailable'')" for c
    by (simp add: nospawn_env_def)
  have cmdN: "launch_cmd nospawn_env demo_server ''d1'' demo_app 8050 =
      \<lparr>Args = [''sh'', ''-c'', ''myapp --port=8050''], Dir = ''/srv/camus/deploys/d1'',
       Setpgid = True\<rparr>"
    by (simp add: launch_cmd_def demo_paths(1)[OF pjN] rc)
  from Run_persists_before_launch[OF portN manN demo_assign marN wrN]
  have N: "fst (Run nospawn_env demo_server ''d1'' demo_world)
       = Some (lib_error ''fork/exec: resource unavailable'') \<and>
     files (snd (snd (Run nospawn_env demo_server ''d1'' demo_world))) ''/srv/camus/config.json''
       = Data demo_json \<and>
     trace (snd (snd (Run nospawn_env demo_server ''d1'' demo_world))) =
       map (\<lambda>q. NetDial (dial_addr q)) [8001 .. 8050] @
       [LogPrint ''Found port  8050'',
        FileWrite ''/srv/camus/config.json'' demo_json None,
        Println ''/srv/camus/deploys/d1'',
        Println ''myapp --port=8050'',
        ProcStart \<lparr>Args = [''sh'', ''-c'', ''myapp --port=8050''], Dir = ''/srv/camus/deploys/d1'',
                   Setpgid = True\<rparr> (Some (lib_error ''fork/exec: resource unavailable''))]"
    unfolding stN cmdN demo_paths[OF pjN] f8050 rc t0
    by auto
  from dead_Run D N show ?thesis by blast
qed

subsection \<open>The outcome of persisting\<close>

lemma poll_env:
  "http_server E' = http_server E \<Longrightarrow> poll E' url w = poll E url w"
  unfolding poll_def client_Get_def Let_def by (simp only:)

lemma waitForAppToStart_loop_env:
  assumes "http_server E' = http_server E"
  shows "waitForAppToStart_loop E' url e w = waitForAppToStart_loop E url e w"
  using assms
proof (induction E url e w rule: waitForAppToStart_loop.induct)
  case (1 E url e w)
  note p = poll_env[OF "1.prems", of url w]
  show ?case
  proof (cases "fst (poll E url w)")
    case (Inr code)
    then have p': "fst (poll E' url w) = Inr code"
      by (simp only: p)
    show ?thesis
    proof (cases "code = 200")
      case True
      show ?thesis
        using waitForAppToStart_loop_ok[of E url w e] waitForAppToStart_loop_ok[of E' url w e]
          Inr p' True
        by (simp only: p)
    next
      case False
      show ?thesis
        using waitForAppToStart_loop_bad[OF Inr False, of e]
          waitForAppToStart_loop_bad[OF p' False, of e]
        by (simp only: p)
    qed
  next
    case (Inl err)
    then have p': "fst (poll E' url w) = Inl err"
      by (simp only: p)
    show ?thesis
    proof (cases "e < clock (snd (poll E url w))")
      case True
      then have True': "e < clock (snd (poll E' url w))"
        by (simp only: p)
      show ?thesis
        using waitForAppToStart_loop_timeout[OF Inl True]
          waitForAppToStart_loop_timeout[OF p' True']
        by (simp only: p)
    next
      case False
      then have le: "clock (snd (poll E url w)) \<le> e" by simp
      then have le': "clock (snd (poll E' url w)) \<le> e" by (simp only: p)
      have "\<not> e < clock (snd (client_Get E url (emit (LogPrint ''.'') w)))"
        and "fst (client_Get E url (emit (LogPrint ''.'') w)) = Inl err"
        using False Inl unfolding poll_def by blast+
      from "1.IH"[OF refl refl this(2) this(1) "1.prems"]
      have IH: "waitForAppToStart_loop E' url e
              (time_Sleep STARTUP_HEALTH_CHECK_INTERVAL (snd (poll E url w))) =
            waitForAppToStart_loop E url e
              (time_Sleep STARTUP_HEALTH_CHECK_INTERVAL (snd (poll E url w)))"
        by (simp only: poll_def)
      have "waitForAppToStart_loop E' url e w =
          waitForAppToStart_loop E' url e
            (time_Sleep STARTUP_HEALTH_CHECK_INTERVAL (snd (poll E' url w)))"
        by (rule waitForAppToStart_loop_retry[OF p' le'])
      also have "\<dots> = waitForAppToStart_loop E' url e
            (time_Sleep STARTUP_HEALTH_CHECK_INTERVAL (snd (poll E url w)))"
        by (simp only: p)
      also note IH
      also have "waitForAppToStart_loop E url e
            (time_Sleep STARTUP_HEALTH_CHECK_INTERVAL (snd (poll E url w)))
          = waitForAppToStart_loop E url e w"
        by (rule waitForAppToStart_loop_retry[OF Inl le, symmetric])
      finally show ?thesis .
    qed
  qed
qed

lemma waitForAppToStart_env:
  "http_server E' = http_server E \<Longrightarrow>
   waitForAppToStart E' port app w = waitForAppToStart E port app w"
  unfolding waitForAppToStart_unfold by (rule waitForAppToStart_loop_env)

lemma writeConfig_effect:
  "\<exists>fw evs. snd (writeConfig E s w) = w\<lparr>files := fw, trace := trace w @ evs\<rparr> \<and>
            (\<forall>ev\<in>set evs. is_FileWrite ev)"
proof (cases "json_Marshal E (config s)")
  case (Inl err)
  then have "snd (writeConfig E s w) = w\<lparr>files := files w, trace := trace w @ []\<rparr>"
    by (simp add: writeConfig_def)
  then show ?thesis by (intro exI[of _ "files w"] exI[of _ "[]"]) simp
next
  case (Inr data)
  show ?thesis
  proof (cases "files w (config_file E s) = Denied")
    case True
    from writeConfig_denied[OF Inr True]
    have "snd (writeConfig E s w) =
        w\<lparr>files := files w,
          trace := trace w @ [FileWrite (config_file E s) data
                                (Some (lib_error ''permission denied''))]\<rparr>"
      by simp
    then show ?thesis
      by (intro exI[of _ "files w"]
          exI[of _ "[FileWrite (config_file E s) data (Some (lib_error ''permission denied''))]"])
        simp
  next
    case False
    from writeConfig_written[OF Inr False]
    have "snd (writeConfig E s w) =
        w\<lparr>files := (files w)(config_file E s := Data data),
          trace := trace w @ [FileWrite (config_file E s) data None]\<rparr>"
      by simp
    then show ?thesis
      by (intro exI[of _ "(files w)(config_file E s := Data data)"]
          exI[of _ "[FileWrite (config_file E s) data None]"]) simp
  qed
qed

lemma log_lines_append: "log_lines (xs @ ys) = log_lines xs @ log_lines ys"
  by (induction xs rule: log_lines.induct) simp_all

lemma filter_FileWrite: "\<forall>ev\<in>set evs. is_FileWrite ev \<Longrightarrow> [ev\<leftarrow>evs. \<not> is_FileWrite ev] = []"
  by (induction evs) simp_all

text \<open>What \<^verbatim>\<open>Run\<close> does after the manifest has been resolved, with the write of the
  registry set apart: the result, the clock and every event but those of the write do not
  depend on the encoder nor on the files.\<close>

lemma Run_launch_shape:
  assumes "fst (findUnusedPort E w) = Inr port"
      and "ApplicationFromConfig E (manifest_path E s d) (files w (manifest_path E s d)) = Inr app"
      and "assignPort port d s = Inr s1"
  shows "\<exists>fw wev.
     Run E s d w =
       (case cmd_Start E (launch_cmd E s d app port) of
          Some err \<Rightarrow> Some err
        | None \<Rightarrow> fst (waitForAppToStart E port app
                         \<lparr>files = (\<lambda>p. Missing), clock = clock w, trace = []\<rparr>),
        s1,
        w\<lparr>files := fw,
          clock := (case cmd_Start E (launch_cmd E s d app port) of
                      Some err \<Rightarrow> clock w
                    | None \<Rightarrow> clock (snd (waitForAppToStart E port app
                                 \<lparr>files = (\<lambda>p. Missing), clock = clock w, trace = []\<rparr>))),
          trace := trace w @ map (\<lambda>q. NetDial (dial_addr q)) [8001 .. port]
                   @ [LogPrint (''Found port  '' @ fmt_d port)] @ wev
                   @ [Println (deploy_dir E s d), Println (RunCmd app port),
                      ProcStart (launch_cmd E s d app port)
                        (cmd_Start E (launch_cmd E s d app port))]
                   @ (case cmd_Start E (launch_cmd E s d app port) of
                        Some err \<Rightarrow> []
                      | None \<Rightarrow> trace (snd (waitForAppToStart E port app
                                   \<lparr>files = (\<lambda>p. Missing), clock = clock w, trace = []\<rparr>)))\<rparr>) \<and>
     (\<forall>ev\<in>set wev. is_FileWrite ev)"
proof -
  let ?cmd = "launch_cmd E s d app port"
  let ?bare = "\<lparr>files = (\<lambda>p. Missing), clock = clock w, trace = []\<rparr>"
  let ?w2 = "emit (LogPrint (''Found port  '' @ fmt_d port)) (snd (findUnusedPort E w))"
  have w2: "?w2 = w\<lparr>trace := trace w @ map (\<lambda>q. NetDial (dial_addr q)) [8001 .. port]
                      @ [LogPrint (''Found port  '' @ fmt_d port)]\<rparr>"
    using findUnusedPort_world[of E w] assms(1) by (simp add: emit_def)
  from writeConfig_effect[of E s1 ?w2] obtain fw wev where
    w3: "snd (writeConfig E s1 ?w2) = ?w2\<lparr>files := fw, trace := trace ?w2 @ wev\<rparr>"
    and wev: "\<forall>ev\<in>set wev. is_FileWrite ev"
    by blast
  let ?pre = "trace w @ map (\<lambda>q. NetDial (dial_addr q)) [8001 .. port]
                 @ [LogPrint (''Found port  '' @ fmt_d port)] @ wev
                 @ [Println (deploy_dir E s d), Println (RunCmd app port),
                    ProcStart ?cmd (cmd_Start E ?cmd)]"
  let ?w6 = "w\<lparr>files := fw, trace := ?pre\<rparr>"
  have w3': "snd (writeConfig E s1 ?w2) =
      w\<lparr>files := fw, trace := trace w @ map (\<lambda>q. NetDial (dial_addr q)) [8001 .. port]
                      @ [LogPrint (''Found port  '' @ fmt_d port)] @ wev\<rparr>"
    unfolding w3 unfolding w2 by simp
  have run: "Run E s d w =
      (case cmd_Start E ?cmd of
         Some err \<Rightarrow> (Some err, s1, ?w6)
       | None \<Rightarrow> (fst (waitForAppToStart E port app ?w6), s1,
                   snd (waitForAppToStart E port app ?w6)))"
    unfolding Run_launch[OF assms(1,2,3)] Let_def w3'
    by (simp add: emit_def split: option.splits)
  show ?thesis
  proof (cases "cmd_Start E ?cmd")
    case (Some err)
    then show ?thesis
      using run wev by (intro exI[of _ fw] exI[of _ wev]) simp
  next
    case None
    from waitForAppToStart_frame[of w E port app] obtain r c evs where
      fr: "\<And>u. clock u = clock w \<Longrightarrow>
             waitForAppToStart E port app u = (r, u\<lparr>clock := c, trace := trace u @ evs\<rparr>)"
      by blast
    have h6: "waitForAppToStart E port app ?w6 = (r, ?w6\<lparr>clock := c, trace := trace ?w6 @ evs\<rparr>)"
      by (rule fr) simp
    have hb: "waitForAppToStart E port app ?bare
        = (r, ?bare\<lparr>clock := c, trace := trace ?bare @ evs\<rparr>)"
      by (rule fr) simp
    have R: "Run E s d w = (r, s1, w\<lparr>files := fw, clock := c, trace := ?pre @ evs\<rparr>)"
      using run None h6 by simp
    have b: "fst (waitForAppToStart E port app ?bare) = r"
      "clock (snd (waitForAppToStart E port app ?bare)) = c"
      "trace (snd (waitForAppToStart E port app ?bare)) = evs"
      unfolding hb by simp_all
    show ?thesis
      unfolding None b option.case R
      using wev by (intro exI[of _ fw] exI[of _ wev]) simp
  qed
qed

text \<open>
  Claim C8 says that a failure to persist the registry is logged. \<^verbatim>\<open>Run\<close> calls
  \<^verbatim>\<open>s.writeConfig()\<close> as a statement and drops the error: below, the write fails with
  "permission denied", \<^verbatim>\<open>Run\<close> returns success, and the lines logged are the port found,
  the dots of the health check and "ok"; none reports the failure.
\<close>

theorem Run_persist_failure_not_logged_counterexample:
  "fst (writeConfig demo_env (demo_server\<lparr>config := demo_config\<rparr>) denied_world)
     = Some (lib_error ''permission denied'') \<and>
   fst (Run demo_env demo_server ''d1'' denied_world) = None \<and>
   log_lines (trace (snd (snd (Run demo_env demo_server ''d1'' denied_world))))
     = [''Found port  8050'', ''.'', ''.'', ''.'', ''.'', ''ok'']"
proof -
  let ?s1 = "demo_server\<lparr>config := demo_config\<rparr>"
  have mar: "json_Marshal demo_env (config ?s1) = Inr demo_json"
    by (simp add: demo_env_def)
  have cf: "config_file demo_env ?s1 = ''/srv/camus/config.json''"
    by (simp add: config_file_def demo_env_def demo_server_def join_slash_def configPath_def)
  have den: "files denied_world (config_file demo_env ?s1) = Denied"
    by (simp add: cf denied_world_def)
  have dials: "log_lines (map (\<lambda>q. NetDial (dial_addr q)) qs) = []" for qs
    by (induction qs) simp_all
  show ?thesis
    unfolding demo_Run_denied writeConfig_denied[OF mar den]
    by (simp add: log_lines_append dials del: upto_rec_numeral)
qed

text \<open>
  Claim C8, amended. The error of \<^verbatim>\<open>writeConfig\<close> is dropped: it is neither logged nor
  returned. Take two runs that differ only in what decides whether the write succeeds
  (the encoder, the state of the registry file): they return the same result and the same
  server, end at the same instant, and do the same things but for the write itself, so
  the same lines are logged, the same process is started and the same polls are made.
\<close>

theorem Run_ignores_persist_outcome:
  assumes "v = w\<lparr>files := (files w)(config_file E s := f)\<rparr>"
      and "E' = E\<lparr>json_Marshal := jm\<rparr>"
      and "manifest_path E s d \<noteq> config_file E s"
  shows "fst (Run E' s d v) = fst (Run E s d w) \<and>
         fst (snd (Run E' s d v)) = fst (snd (Run E s d w)) \<and>
         clock (snd (snd (Run E' s d v))) = clock (snd (snd (Run E s d w))) \<and>
         [ev\<leftarrow>trace (snd (snd (Run E' s d v))). \<not> is_FileWrite ev] =
           [ev\<leftarrow>trace (snd (snd (Run E s d w))). \<not> is_FileWrite ev] \<and>
         log_lines (trace (snd (snd (Run E' s d v)))) =
           log_lines (trace (snd (snd (Run E s d w))))"
proof -
  have env: "path_Join E' = path_Join E" "net_Dial E' = net_Dial E"
    "ApplicationFromConfig E' = ApplicationFromConfig E" "cmd_Start E' = cmd_Start E"
    "http_server E' = http_server E"
    using assms(2) by simp_all
  have paths: "manifest_path E' s d = manifest_path E s d" "deploy_dir E' s d = deploy_dir E s d"
    "launch_cmd E' s d = launch_cmd E s d"
    by (simp_all add: manifest_path_def deploy_dir_def launch_cmd_def env fun_eq_iff)
  have tv: "trace v = trace w" and cv: "clock v = clock w"
    using assms(1) by simp_all
  have fv: "files v (manifest_path E s d) = files w (manifest_path E s d)"
    using assms(1,3) by simp
  have port: "fst (findUnusedPort E' v) = fst (findUnusedPort E w)"
    by (rule findUnusedPort_same_dial) (rule env)
  have sndv: "snd (findUnusedPort E' v) =
      v\<lparr>trace := trace w @ map (\<lambda>q. NetDial (dial_addr q))
        [8001 .. (case fst (findUnusedPort E w) of Inr p \<Rightarrow> p | Inl err \<Rightarrow> 8099)]\<rparr>"
    using findUnusedPort_world[of E' v] by (simp only: port tv)
  note sndw = findUnusedPort_world[of E w]
  have logeq: "log_lines t = log_lines t'" if "[ev\<leftarrow>t. \<not> is_FileWrite ev] = [ev\<leftarrow>t'. \<not> is_FileWrite ev]"
    for t t'
  proof -
    have "log_lines [ev\<leftarrow>t. \<not> is_FileWrite ev] = log_lines t" for t
      by (induction t rule: log_lines.induct) simp_all
    then show ?thesis using that by metis
  qed
  have early: ?thesis
    if "Run E' s d v = (r, s', snd (findUnusedPort E' v)\<lparr>trace := trace (snd (findUnusedPort E' v)) @ evs\<rparr>)"
      and "Run E s d w = (r, s', snd (findUnusedPort E w)\<lparr>trace := trace (snd (findUnusedPort E w)) @ evs\<rparr>)"
    for r s' evs
  proof -
    have "[ev\<leftarrow>trace (snd (snd (Run E' s d v))). \<not> is_FileWrite ev] =
           [ev\<leftarrow>trace (snd (snd (Run E s d w))). \<not> is_FileWrite ev]"
      unfolding that sndv sndw by simp
    moreover have "clock (snd (snd (Run E' s d v))) = clock (snd (snd (Run E s d w)))"
      unfolding that sndv sndw using cv by simp
    ultimately show ?thesis
      using logeq unfolding that by simp
  qed
  show ?thesis
  proof (cases "fst (findUnusedPort E w)")
    case (Inl err)
    have "Run E' s d v = (Some err, s, snd (findUnusedPort E' v))"
      by (rule Run_no_port) (simp only: port Inl)
    moreover have "Run E s d w = (Some err, s, snd (findUnusedPort E w))"
      by (rule Run_no_port) (rule Inl)
    ultimately show ?thesis
      using early[of "Some err" s "[]"] by simp
  next
    case (Inr p)
    then have p': "fst (findUnusedPort E' v) = Inr p"
      by (simp only: port)
    show ?thesis
    proof (cases "ApplicationFromConfig E (manifest_path E s d) (files w (manifest_path E s d))")
      case (Inl err)
      then have m': "ApplicationFromConfig E' (manifest_path E' s d)
          (files v (manifest_path E' s d)) = Inl err"
        by (simp only: env paths fv)
      have "Run E' s d v = (Some err, s,
          emit (LogPrint (''Found port  '' @ fmt_d p)) (snd (findUnusedPort E' v)))"
        by (rule Run_no_manifest[OF p' m'])
      moreover have "Run E s d w = (Some err, s,
          emit (LogPrint (''Found port  '' @ fmt_d p)) (snd (findUnusedPort E w)))"
        by (rule Run_no_manifest[OF Inr Inl])
      ultimately show ?thesis
        using early[of "Some err" s "[LogPrint (''Found port  '' @ fmt_d p)]"]
        by (simp add: emit_def)
    next
      case app: (Inr app)
      then have m': "ApplicationFromConfig E' (manifest_path E' s d)
          (files v (manifest_path E' s d)) = Inr app"
        by (simp only: env paths fv)
      show ?thesis
      proof (cases "assignPort p d s")
        case (Inl err)
        have "Run E' s d v = (Some err, s,
            emit (LogPrint (''Found port  '' @ fmt_d p)) (snd (findUnusedPort E' v)))"
          by (rule Run_panic[OF p' m' Inl])
        moreover have "Run E s d w = (Some err, s,
            emit (LogPrint (''Found port  '' @ fmt_d p)) (snd (findUnusedPort E w)))"
          by (rule Run_panic[OF Inr app Inl])
        ultimately show ?thesis
          using early[of "Some err" s "[LogPrint (''Found port  '' @ fmt_d p)]"]
          by (simp add: emit_def)
      next
        case s1: (Inr s1)
        let ?bare = "\<lparr>files = (\<lambda>p. Missing), clock = clock w, trace = []\<rparr>"
        have hc: "waitForAppToStart E' p app ?bare = waitForAppToStart E p app ?bare"
          by (rule waitForAppToStart_env) (rule env)
        from Run_launch_shape[OF Inr app s1] obtain fw wev where
          rw: "Run E s d w = (case cmd_Start E (launch_cmd E s d app p) of
                  Some err \<Rightarrow> Some err
                | None \<Rightarrow> fst (waitForAppToStart E p app ?bare),
                s1,
                w\<lparr>files := fw,
                  clock := (case cmd_Start E (launch_cmd E s d app p) of
                              Some err \<Rightarrow> clock w
                            | None \<Rightarrow> clock (snd (waitForAppToStart E p app ?bare))),
                  trace := trace w @ map (\<lambda>q. NetDial (dial_addr q)) [8001 .. p]
                           @ [LogPrint (''Found port  '' @ fmt_d p)] @ wev
                           @ [Println (deploy_dir E s d), Println (RunCmd app p),
                              ProcStart (launch_cmd E s d app p)
                                (cmd_Start E (launch_cmd E s d app p))]
                           @ (case cmd_Start E (launch_cmd E s d app p) of
                                Some err \<Rightarrow> []
                              | None \<Rightarrow> trace (snd (waitForAppToStart E p app ?bare)))\<rparr>)"
          and wev: "\<forall>ev\<in>set wev. is_FileWrite ev"
          by blast
        from Run_launch_shape[OF p' m' s1] obtain fw' wev' where
          rv: "Run E' s d v = (case cmd_Start E (launch_cmd E s d app p) of
                  Some err \<Rightarrow> Some err
                | None \<Rightarrow> fst (waitForAppToStart E p app ?bare),
                s1,
                v\<lparr>files := fw',
                  clock := (case cmd_Start E (launch_cmd E s d app p) of
                              Some err \<Rightarrow> clock w
                            | None \<Rightarrow> clock (snd (waitForAppToStart E p app ?bare))),
                  trace := trace w @ map (\<lambda>q. NetDial (dial_addr q)) [8001 .. p]
                           @ [LogPrint (''Found port  '' @ fmt_d p)] @ wev'
                           @ [Println (deploy_dir E s d), Println (RunCmd app p),
                              ProcStart (launch_cmd E s d app p)
                                (cmd_Start E (launch_cmd E s d app p))]
                           @ (case cmd_Start E (launch_cmd E s d app p) of
                                Some err \<Rightarrow> []
                              | None \<Rightarrow> trace (snd (waitForAppToStart E p app ?bare)))\<rparr>)"
          and wev': "\<forall>ev\<in>set wev'. is_FileWrite ev"
          unfolding env paths tv cv hc by blast
        have fl: "[ev\<leftarrow>trace (snd (snd (Run E' s d v))). \<not> is_FileWrite ev] =
           [ev\<leftarrow>trace (snd (snd (Run E s d w))). \<not> is_FileWrite ev]"
          unfolding rw rv
          by (simp add: filter_FileWrite[OF wev] filter_FileWrite[OF wev'])
        show ?thesis
          using fl logeq[OF fl] unfolding rw rv by simp
      qed
    qed
  qed
qed

theorem Run_ignores_persist_outcome_witness:
  "denied_world = demo_world\<lparr>files := (files demo_world)(config_file demo_env demo_server := Denied)\<rparr> \<and>
   manifest_path demo_env demo_server ''d1'' \<noteq> config_file demo_env demo_server \<and>
   fst (writeConfig demo_env (demo_server\<lparr>config := demo_config\<rparr>) demo_world) = None \<and>
   fst (writeConfig demo_env (demo_server\<lparr>config := demo_config\<rparr>) denied_world)
     = Some (lib_error ''permission denied'') \<and>
   fst (Run demo_env demo_server ''d1'' denied_world)
     = fst (Run demo_env demo_server ''d1'' demo_world) \<and>
   fst (snd (Run demo_env demo_server ''d1'' denied_world))
     = fst (snd (Run demo_env demo_server ''d1'' demo_world)) \<and>
   log_lines (trace (snd (snd (Run demo_env demo_server ''d1'' denied_world))))
     = log_lines (trace (snd (snd (Run demo_env demo_server ''d1'' demo_world)))) \<and>
   fst (Run (demo_env\<lparr>json_Marshal := (\<lambda>c. Inl (lib_error ''unsupported type''))\<rparr>)
          demo_server ''d1'' denied_world)
     = fst (Run demo_env demo_server ''d1'' demo_world)"
proof -
  let ?s1 = "demo_server\<lparr>config := demo_config\<rparr>"
  have pj: "path_Join demo_env = join_slash" by (simp add: demo_env_def)
  have v: "denied_world =
      demo_world\<lparr>files := (files demo_world)(config_file demo_env demo_server := Denied)\<rparr>"
    by (simp add: demo_paths(3)[OF pj] denied_world_def)
  have ne: "manifest_path demo_env demo_server ''d1'' \<noteq> config_file demo_env demo_server"
    by (simp add: demo_paths[OF pj])
  have e1: "demo_env = demo_env\<lparr>json_Marshal := json_Marshal demo_env\<rparr>"
    by simp
  have mar: "json_Marshal demo_env (config ?s1) = Inr demo_json"
    by (simp add: demo_env_def)
  have cf: "config_file demo_env ?s1 = ''/srv/camus/config.json''"
    using demo_paths(3)[OF pj] by (simp add: config_file_def)
  have ok: "fst (writeConfig demo_env ?s1 demo_world) = None"
    by (subst writeConfig_written[OF mar]) (simp_all add: cf demo_world_def)
  have ko: "fst (writeConfig demo_env ?s1 denied_world) = Some (lib_error ''permission denied'')"
    by (subst writeConfig_denied[OF mar]) (simp_all add: cf denied_world_def)
  show ?thesis
    using v ne ok ko
      Run_ignores_persist_outcome[OF v e1 ne]
      Run_ignores_persist_outcome[OF v refl ne,
        of "\<lambda>c. Inl (lib_error ''unsupported type'')"]
    by simp
qed

end
